theory Spec2Isabelle
  imports Main "HOL-Library.Sublist"
begin

unbundle bit_operations_syntax

section \<open>The path functions of \<^verbatim>\<open>os.path\<close> the adapter calls\<close>

text \<open>
  \<^verbatim>\<open>stub_sftp.py\<close> builds every host path with \<^verbatim>\<open>os.path.normpath\<close>,
  \<^verbatim>\<open>os.path.join\<close>, \<^verbatim>\<open>os.path.abspath\<close>, \<^verbatim>\<open>os.path.dirname\<close> and
  \<^verbatim>\<open>os.path.isabs\<close>. The adapter compares with the literal \<^verbatim>\<open>"/"\<close>, so the
  functions are those of CPython's \<^verbatim>\<open>posixpath\<close>, transcribed statement by statement.
  A path is a \<open>string\<close>; \<^verbatim>\<open>os.getcwd()\<close> is the parameter \<open>cwd\<close>.
\<close>

text \<open>\<^verbatim>\<open>path.split('/')\<close>: the pieces between separators, empty pieces kept.\<close>

fun split_sep :: "string \<Rightarrow> string list" where
  "split_sep [] = [[]]"
| "split_sep (c # cs) =
     (if c = CHR ''/'' then [] # split_sep cs
      else (case split_sep cs of
              w # ws \<Rightarrow> (c # w) # ws
            | [] \<Rightarrow> [[c]]))"

text \<open>\<^verbatim>\<open>'/'.join(comps)\<close>.\<close>

fun join_sep :: "string list \<Rightarrow> string" where
  "join_sep [] = []"
| "join_sep [x] = x"
| "join_sep (x # y # ys) = x @ ''/'' @ join_sep (y # ys)"

text \<open>
  The loop of \<^verbatim>\<open>normpath\<close> over the components:
  \<^verbatim>\<open>
  for comp in comps:
      if comp in (empty, dot):
          continue
      if (comp != dotdot or (not initial_slashes and not new_comps) or
           (new_comps and new_comps[-1] == dotdot)):
          new_comps.append(comp)
      elif new_comps:
          new_comps.pop()
  \<close>
\<close>

fun norm_comps :: "nat \<Rightarrow> string list \<Rightarrow> string list \<Rightarrow> string list" where
  "norm_comps initial_slashes [] new_comps = new_comps"
| "norm_comps initial_slashes (part # comps) new_comps =
     (if part = [] \<or> part = ''.'' then norm_comps initial_slashes comps new_comps
      else if part \<noteq> ''..'' \<or> (initial_slashes = 0 \<and> new_comps = [])
                \<or> (new_comps \<noteq> [] \<and> last new_comps = ''..'')
        then norm_comps initial_slashes comps (new_comps @ [part])
      else if new_comps \<noteq> [] then norm_comps initial_slashes comps (butlast new_comps)
      else norm_comps initial_slashes comps new_comps)"

definition initial_slashes_of :: "string \<Rightarrow> nat" where
  "initial_slashes_of path =
     (if \<not> prefix ''/'' path then 0
      else if prefix ''//'' path \<and> \<not> prefix ''///'' path then 2
      else 1)"

definition normpath :: "string \<Rightarrow> string" where
  "normpath path =
     (if path = [] then ''.''
      else
        let initial_slashes = initial_slashes_of path;
            comps = norm_comps initial_slashes (split_sep path) [];
            joined = join_sep comps;
            result = (if initial_slashes \<noteq> 0
                      then replicate initial_slashes CHR ''/'' @ joined else joined)
        in if result = [] then ''.'' else result)"

text \<open>
  \<^verbatim>\<open>os.path.join(a, b)\<close> with one further component:
  \<^verbatim>\<open>
  if b.startswith(sep):          path = b
  elif not path or path.endswith(sep):  path += b
  else:                          path += sep + b
  \<close>
\<close>

definition path_join :: "string \<Rightarrow> string \<Rightarrow> string" where
  "path_join a b =
     (if prefix ''/'' b then b
      else if a = [] \<or> last a = CHR ''/'' then a @ b
      else a @ ''/'' @ b)"

definition isabs :: "string \<Rightarrow> bool" where
  "isabs s = prefix ''/'' s"

definition abspath :: "string \<Rightarrow> string \<Rightarrow> string" where
  "abspath cwd path = normpath (if isabs path then path else path_join cwd path)"

text \<open>
  \<^verbatim>\<open>os.path.dirname(p)\<close>:
  \<^verbatim>\<open>
  i = p.rfind(sep) + 1
  head = p[:i]
  if head and head != sep*len(head):
      head = head.rstrip(sep)
  \<close>
\<close>

definition rstrip_sep :: "string \<Rightarrow> string" where
  "rstrip_sep s = rev (dropWhile (\<lambda>c. c = CHR ''/'') (rev s))"

definition dirname :: "string \<Rightarrow> string" where
  "dirname p =
     (let head = rev (dropWhile (\<lambda>c. c \<noteq> CHR ''/'') (rev p))
      in if head \<noteq> [] \<and> head \<noteq> replicate (length head) CHR ''/''
         then rstrip_sep head else head)"

section \<open>Exceptions and path resolution\<close>

text \<open>
  The exceptions that can leave an adapter method: the \<^verbatim>\<open>ValueError\<close> of
  \<^verbatim>\<open>_realpath\<close>, an \<^verbatim>\<open>OSError\<close> with its errno, the \<^verbatim>\<open>TypeError\<close>
  Python raises when a host call is handed \<^verbatim>\<open>None\<close>, and the \<^verbatim>\<open>OverflowError\<close> it
  raises when an integer argument does not fit the C type of the call.
\<close>

datatype exn = ValueError string | OSError nat | TypeError | OverflowError

text \<open>
  \<^verbatim>\<open>StubSFTPServer._realpath\<close> (stub_sftp.py, lines 77-85). \<open>ROOT\<close> is the class
  attribute \<^verbatim>\<open>StubSFTPServer.ROOT\<close>.
\<close>

definition realpath :: "string \<Rightarrow> string \<Rightarrow> string \<Rightarrow> exn + string" where
  "realpath ROOT cwd path =
     (let normalized_path = normpath path;
          full_path = path_join ROOT normalized_path;
          absolute_path = abspath cwd full_path
      in if \<not> prefix ROOT absolute_path
         then Inl (ValueError ''Access denied: path is outside the root directory.'')
         else Inr absolute_path)"

text \<open>
  Directory containment, the meaning of "inside the root": the components of the root
  are the leading components of the path.
\<close>

definition components :: "string \<Rightarrow> string list" where
  "components p = filter (\<lambda>c. c \<noteq> []) (split_sep p)"

definition inside_root :: "string \<Rightarrow> string \<Rightarrow> bool" where
  "inside_root ROOT p = prefix (components ROOT) (components p)"

section \<open>Library constants and types\<close>

text \<open>
  The errno values of Linux and paramiko's status codes (\<^verbatim>\<open>paramiko.sftp\<close>):
  \<^verbatim>\<open>SFTP_OK, SFTP_EOF, SFTP_NO_SUCH_FILE, SFTP_PERMISSION_DENIED, SFTP_FAILURE = range(5)\<close>.
\<close>

definition EPERM :: nat where "EPERM = 1"
definition ENOENT :: nat where "ENOENT = 2"
definition EBADF :: nat where "EBADF = 9"
definition EACCES :: nat where "EACCES = 13"
definition EEXIST :: nat where "EEXIST = 17"
definition EXDEV :: nat where "EXDEV = 18"
definition ENOTDIR :: nat where "ENOTDIR = 20"
definition EISDIR :: nat where "EISDIR = 21"
definition EINVAL :: nat where "EINVAL = 22"
definition ENOTEMPTY :: nat where "ENOTEMPTY = 39"
definition ELOOP :: nat where "ELOOP = 40"

definition SFTP_OK :: nat where "SFTP_OK = 0"
definition SFTP_NO_SUCH_FILE :: nat where "SFTP_NO_SUCH_FILE = 2"
definition SFTP_PERMISSION_DENIED :: nat where "SFTP_PERMISSION_DENIED = 3"
definition SFTP_FAILURE :: nat where "SFTP_FAILURE = 4"

text \<open>
  \<^verbatim>\<open>paramiko.SFTPServer.convert_errno\<close>:
  \<^verbatim>\<open>
  if e == errno.EACCES:                          return SFTP_PERMISSION_DENIED
  elif (e == errno.ENOENT) or (e == errno.ENOTDIR): return SFTP_NO_SUCH_FILE
  else:                                          return SFTP_FAILURE
  \<close>
\<close>

definition convert_errno :: "nat \<Rightarrow> nat" where
  "convert_errno e =
     (if e = EACCES then SFTP_PERMISSION_DENIED
      else if e = ENOENT \<or> e = ENOTDIR then SFTP_NO_SUCH_FILE
      else SFTP_FAILURE)"

text \<open>The open flags of Linux; \<^verbatim>\<open>getattr(os, "O_BINARY", 0)\<close> is 0 on a POSIX host.\<close>

definition O_WRONLY :: int where "O_WRONLY = 1"
definition O_RDWR :: int where "O_RDWR = 2"
definition O_CREAT :: int where "O_CREAT = 64"
definition O_EXCL :: int where "O_EXCL = 128"
definition O_TRUNC :: int where "O_TRUNC = 512"
definition O_APPEND :: int where "O_APPEND = 1024"
definition O_NOFOLLOW :: int where "O_NOFOLLOW = 131072"
definition O_BINARY :: int where "O_BINARY = 0"

text \<open>
  \<^verbatim>\<open>paramiko.SFTPAttributes\<close>: \<^verbatim>\<open>_flags\<close> says which fields the client sent; a field
  not sent is \<^verbatim>\<open>None\<close>.
\<close>

definition FLAG_SIZE :: int where "FLAG_SIZE = 1"
definition FLAG_UIDGID :: int where "FLAG_UIDGID = 2"
definition FLAG_PERMISSIONS :: int where "FLAG_PERMISSIONS = 4"
definition FLAG_AMTIME :: int where "FLAG_AMTIME = 8"

record sftp_attributes =
  attr_flags :: int
  st_size :: "int option"
  st_uid :: "int option"
  st_gid :: "int option"
  st_mode :: "int option"
  st_atime :: "int option"
  st_mtime :: "int option"
  filename :: "string option"

text \<open>What \<^verbatim>\<open>os.stat\<close> and \<^verbatim>\<open>os.lstat\<close> return.\<close>

record stat_result =
  s_mode :: int
  s_size :: int
  s_uid :: int
  s_gid :: int
  s_atime :: int
  s_mtime :: int

text \<open>\<^verbatim>\<open>SFTPAttributes.from_stat(obj, filename=None)\<close>; \<^verbatim>\<open>_flags\<close> stays 0.\<close>

definition from_stat :: "stat_result \<Rightarrow> string option \<Rightarrow> sftp_attributes" where
  "from_stat obj name =
     \<lparr>attr_flags = 0, st_size = Some (s_size obj), st_uid = Some (s_uid obj),
      st_gid = Some (s_gid obj), st_mode = Some (s_mode obj), st_atime = Some (s_atime obj),
      st_mtime = Some (s_mtime obj), filename = name\<rparr>"

text \<open>\<^verbatim>\<open>StubSFTPHandle\<close> as \<^verbatim>\<open>open\<close> fills it.\<close>

record sftp_handle =
  handle_flags :: int
  handle_filename :: string
  readfile :: nat
  writefile :: nat

text \<open>What an adapter method returns: a status code or a payload.\<close>

datatype reply =
    Status nat
  | Attrs sftp_attributes
  | AttrList "sftp_attributes list"
  | Handle sftp_handle
  | Target string

section \<open>The host filesystem\<close>

text \<open>
  The host is a parameter: each \<^verbatim>\<open>os\<close> function the adapter calls is a function of the
  host's state \<open>'w\<close> that returns an errno (the \<^verbatim>\<open>OSError\<close> Python raises) or a value,
  and the new state. \<open>os_truncate\<close> stands for
  \<^verbatim>\<open>with open(filename, "w+") as f: f.truncate(size)\<close>.
\<close>

record 'w host =
  os_listdir :: "string \<Rightarrow> 'w \<Rightarrow> (nat + string list) \<times> 'w"
  os_lstat :: "string \<Rightarrow> 'w \<Rightarrow> (nat + stat_result) \<times> 'w"
  os_stat :: "string \<Rightarrow> 'w \<Rightarrow> (nat + stat_result) \<times> 'w"
  os_open :: "string \<Rightarrow> int \<Rightarrow> int \<Rightarrow> 'w \<Rightarrow> (nat + nat) \<times> 'w"
  os_fdopen :: "nat \<Rightarrow> string \<Rightarrow> 'w \<Rightarrow> (nat + nat) \<times> 'w"
  os_remove :: "string \<Rightarrow> 'w \<Rightarrow> (nat + unit) \<times> 'w"
  os_rename :: "string \<Rightarrow> string \<Rightarrow> 'w \<Rightarrow> (nat + unit) \<times> 'w"
  os_mkdir :: "string \<Rightarrow> 'w \<Rightarrow> (nat + unit) \<times> 'w"
  os_rmdir :: "string \<Rightarrow> 'w \<Rightarrow> (nat + unit) \<times> 'w"
  os_chmod :: "string \<Rightarrow> int \<Rightarrow> 'w \<Rightarrow> (nat + unit) \<times> 'w"
  os_chown :: "string \<Rightarrow> int \<Rightarrow> int \<Rightarrow> 'w \<Rightarrow> (nat + unit) \<times> 'w"
  os_utime :: "string \<Rightarrow> int \<Rightarrow> int \<Rightarrow> 'w \<Rightarrow> (nat + unit) \<times> 'w"
  os_truncate :: "string \<Rightarrow> int \<Rightarrow> 'w \<Rightarrow> (nat + unit) \<times> 'w"
  os_symlink :: "string \<Rightarrow> string \<Rightarrow> 'w \<Rightarrow> (nat + unit) \<times> 'w"
  os_readlink :: "string \<Rightarrow> 'w \<Rightarrow> (nat + string) \<times> 'w"

text \<open>The host calls a method made, in order: the second component of the state.\<close>

datatype host_call =
    Listdir string
  | Lstat string
  | Stat string
  | Open string int int
  | Fdopen nat string
  | Remove string
  | Rename string string
  | Mkdir string
  | Rmdir string
  | Chmod string int
  | Chown string int int
  | Utime string int int
  | Truncate string int
  | Symlink string string
  | Readlink string

type_synonym 'w hstate = "'w \<times> host_call list"

text \<open>One host call: it is recorded, and an errno becomes the raised \<^verbatim>\<open>OSError\<close>.\<close>

definition host_do ::
  "host_call \<Rightarrow> ('w \<Rightarrow> (nat + 'a) \<times> 'w) \<Rightarrow> 'w hstate \<Rightarrow> (exn + 'a) \<times> 'w hstate" where
  "host_do c f st =
     (case f (fst st) of
        (Inl e, w') \<Rightarrow> (Inl (OSError e), (w', snd st @ [c]))
      | (Inr v, w') \<Rightarrow> (Inr v, (w', snd st @ [c])))"

text \<open>Sequencing: an exception ends the statements that follow.\<close>

definition bind_x ::
  "('s \<Rightarrow> (exn + 'a) \<times> 's) \<Rightarrow> ('a \<Rightarrow> 's \<Rightarrow> (exn + 'b) \<times> 's) \<Rightarrow> 's \<Rightarrow> (exn + 'b) \<times> 's" where
  "bind_x m f st = (case m st of (Inl e, st') \<Rightarrow> (Inl e, st') | (Inr v, st') \<Rightarrow> f v st')"

definition when_x :: "bool \<Rightarrow> ('s \<Rightarrow> (exn + unit) \<times> 's) \<Rightarrow> 's \<Rightarrow> (exn + unit) \<times> 's" where
  "when_x b m st = (if b then m st else (Inr (), st))"

text \<open>
  \<^verbatim>\<open>try: ... except OSError as e: return SFTPServer.convert_errno(e.errno)\<close>: only an
  \<^verbatim>\<open>OSError\<close> is caught.
\<close>

definition except_OSError ::
  "('s \<Rightarrow> (exn + reply) \<times> 's) \<Rightarrow> 's \<Rightarrow> (exn + reply) \<times> 's" where
  "except_OSError body st =
     (case body st of
        (Inl (OSError e), st') \<Rightarrow> (Inr (Status (convert_errno e)), st')
      | (Inl x, st') \<Rightarrow> (Inl x, st')
      | (Inr r, st') \<Rightarrow> (Inr r, st'))"

text \<open>
  \<^verbatim>\<open>paramiko.SFTPServer.set_file_attr(filename, attr)\<close> on a POSIX host:
  \<^verbatim>\<open>
  if attr._flags & attr.FLAG_PERMISSIONS: os.chmod(filename, attr.st_mode)
  if attr._flags & attr.FLAG_UIDGID:      os.chown(filename, attr.st_uid, attr.st_gid)
  if attr._flags & attr.FLAG_AMTIME:      os.utime(filename, (attr.st_atime, attr.st_mtime))
  if attr._flags & attr.FLAG_SIZE:
      with open(filename, "w+") as f: f.truncate(attr.st_size)
  \<close>
  It has no handler of its own. A flagged field that is \<^verbatim>\<open>None\<close> makes \<^verbatim>\<open>os.chmod\<close>,
  \<^verbatim>\<open>os.chown\<close> and \<^verbatim>\<open>os.utime\<close> raise \<^verbatim>\<open>TypeError\<close>; the mode of \<^verbatim>\<open>os.chmod\<close> is
  a C \<^verbatim>\<open>int\<close>, and a mode outside its 32 bits (the client sends an unsigned 32-bit
  value) raises \<^verbatim>\<open>OverflowError\<close> before any call of the host; \<^verbatim>\<open>f.truncate(None)\<close>
  truncates at the position of the fresh file object, 0.
\<close>

definition chmod_step :: "'w host \<Rightarrow> string \<Rightarrow> sftp_attributes \<Rightarrow> 'w hstate \<Rightarrow> (exn + unit) \<times> 'w hstate" where
  "chmod_step h name attr st =
     (case st_mode attr of
        None \<Rightarrow> (Inl TypeError, st)
      | Some m \<Rightarrow>
          (if - 2147483648 \<le> m \<and> m < 2147483648
           then host_do (Chmod name m) (os_chmod h name m) st
           else (Inl OverflowError, st)))"

definition chown_step :: "'w host \<Rightarrow> string \<Rightarrow> sftp_attributes \<Rightarrow> 'w hstate \<Rightarrow> (exn + unit) \<times> 'w hstate" where
  "chown_step h name attr st =
     (case (st_uid attr, st_gid attr) of
        (Some u, Some g) \<Rightarrow> host_do (Chown name u g) (os_chown h name u g) st
      | _ \<Rightarrow> (Inl TypeError, st))"

definition utime_step :: "'w host \<Rightarrow> string \<Rightarrow> sftp_attributes \<Rightarrow> 'w hstate \<Rightarrow> (exn + unit) \<times> 'w hstate" where
  "utime_step h name attr st =
     (case (st_atime attr, st_mtime attr) of
        (Some a, Some m) \<Rightarrow> host_do (Utime name a m) (os_utime h name a m) st
      | _ \<Rightarrow> (Inl TypeError, st))"

definition truncate_step :: "'w host \<Rightarrow> string \<Rightarrow> sftp_attributes \<Rightarrow> 'w hstate \<Rightarrow> (exn + unit) \<times> 'w hstate" where
  "truncate_step h name attr st =
     (let n = (case st_size attr of None \<Rightarrow> 0 | Some k \<Rightarrow> k)
      in host_do (Truncate name n) (os_truncate h name n) st)"

definition set_file_attr ::
  "'w host \<Rightarrow> string \<Rightarrow> sftp_attributes \<Rightarrow> 'w hstate \<Rightarrow> (exn + unit) \<times> 'w hstate" where
  "set_file_attr h name attr =
     bind_x (when_x (attr_flags attr AND FLAG_PERMISSIONS \<noteq> 0) (chmod_step h name attr)) (\<lambda>_.
     bind_x (when_x (attr_flags attr AND FLAG_UIDGID \<noteq> 0) (chown_step h name attr)) (\<lambda>_.
     bind_x (when_x (attr_flags attr AND FLAG_AMTIME \<noteq> 0) (utime_step h name attr)) (\<lambda>_.
     when_x (attr_flags attr AND FLAG_SIZE \<noteq> 0) (truncate_step h name attr))))"

section \<open>The adapter: \<^verbatim>\<open>StubSFTPServer\<close>\<close>

text \<open>
  Every method takes the class attribute \<open>ROOT\<close>, the working directory and the host,
  and maps the state before the call to its outcome and the state after it. The outcome
  is \<open>Inl\<close> for an exception that leaves the method and \<open>Inr\<close> for the value returned.
  Each method starts with \<^verbatim>\<open>path = self._realpath(path)\<close>, outside any \<^verbatim>\<open>try\<close>.
\<close>

text \<open>The loop of \<^verbatim>\<open>list_folder\<close> over \<^verbatim>\<open>file_list\<close>.\<close>

fun list_attrs ::
  "'w host \<Rightarrow> string \<Rightarrow> string list \<Rightarrow> sftp_attributes list \<Rightarrow> 'w hstate
   \<Rightarrow> (exn + sftp_attributes list) \<times> 'w hstate" where
  "list_attrs h path [] out st = (Inr out, st)"
| "list_attrs h path (file_name # rest) out st =
     (case host_do (Lstat (path_join path file_name)) (os_lstat h (path_join path file_name)) st of
        (Inl e, st') \<Rightarrow> (Inl e, st')
      | (Inr s, st') \<Rightarrow> list_attrs h path rest (out @ [from_stat s (Some file_name)]) st')"

definition list_folder ::
  "string \<Rightarrow> string \<Rightarrow> 'w host \<Rightarrow> string \<Rightarrow> 'w hstate \<Rightarrow> (exn + reply) \<times> 'w hstate" where
  "list_folder ROOT cwd h path st =
     (case realpath ROOT cwd path of
        Inl e \<Rightarrow> (Inl e, st)
      | Inr p \<Rightarrow>
          except_OSError
            (bind_x (host_do (Listdir p) (os_listdir h p)) (\<lambda>file_list.
             bind_x (list_attrs h p file_list []) (\<lambda>out st'. (Inr (AttrList out), st')))) st)"

definition stat ::
  "string \<Rightarrow> string \<Rightarrow> 'w host \<Rightarrow> string \<Rightarrow> 'w hstate \<Rightarrow> (exn + reply) \<times> 'w hstate" where
  "stat ROOT cwd h path st =
     (case realpath ROOT cwd path of
        Inl e \<Rightarrow> (Inl e, st)
      | Inr p \<Rightarrow>
          except_OSError
            (bind_x (host_do (Stat p) (os_stat h p)) (\<lambda>s st'.
               (Inr (Attrs (from_stat s None)), st'))) st)"

definition lstat ::
  "string \<Rightarrow> string \<Rightarrow> 'w host \<Rightarrow> string \<Rightarrow> 'w hstate \<Rightarrow> (exn + reply) \<times> 'w hstate" where
  "lstat ROOT cwd h path st =
     (case realpath ROOT cwd path of
        Inl e \<Rightarrow> (Inl e, st)
      | Inr p \<Rightarrow>
          except_OSError
            (bind_x (host_do (Lstat p) (os_lstat h p)) (\<lambda>s st'.
               (Inr (Attrs (from_stat s None)), st'))) st)"

text \<open>
  \<^verbatim>\<open>open\<close> (lines 121-160). \<^verbatim>\<open>attr._flags &= ~attr.FLAG_PERMISSIONS\<close> changes the
  caller's object, so the attributes after the call are part of the outcome. The mode
  string handed to \<^verbatim>\<open>os.fdopen\<close> follows the chain of line 139-151.
\<close>

definition strip_permissions :: "sftp_attributes \<Rightarrow> sftp_attributes" where
  "strip_permissions a = a\<lparr>attr_flags := attr_flags a AND NOT FLAG_PERMISSIONS\<rparr>"

definition fdopen_mode :: "int \<Rightarrow> string" where
  "fdopen_mode flags =
     (if flags AND O_WRONLY \<noteq> 0 then (if flags AND O_APPEND \<noteq> 0 then ''ab'' else ''wb'')
      else if flags AND O_RDWR \<noteq> 0 then (if flags AND O_APPEND \<noteq> 0 then ''a+b'' else ''r+b'')
      else ''rb'')"

definition open_mode :: "sftp_attributes option \<Rightarrow> int" where
  "open_mode attr =
     (case attr of
        None \<Rightarrow> 438
      | Some a \<Rightarrow> (case st_mode a of None \<Rightarrow> 438 | Some mode \<Rightarrow> mode))"

definition sftp_open ::
  "string \<Rightarrow> string \<Rightarrow> 'w host \<Rightarrow> string \<Rightarrow> int \<Rightarrow> sftp_attributes option \<Rightarrow> 'w hstate
   \<Rightarrow> ((exn + reply) \<times> sftp_attributes option) \<times> 'w hstate" where
  "sftp_open ROOT cwd h path flags0 attr st =
     (case realpath ROOT cwd path of
        Inl e \<Rightarrow> ((Inl e, attr), st)
      | Inr p \<Rightarrow>
          let flags = flags0 OR O_BINARY in
          (case host_do (Open p flags (open_mode attr)) (os_open h p flags (open_mode attr)) st of
             (Inl (OSError e), st1) \<Rightarrow> ((Inr (Status (convert_errno e)), attr), st1)
           | (Inl x, st1) \<Rightarrow> ((Inl x, attr), st1)
           | (Inr fd, st1) \<Rightarrow>
               let attr' = (if flags AND O_CREAT \<noteq> 0 then map_option strip_permissions attr
                            else attr)
               in (case (case attr' of
                           Some a \<Rightarrow> when_x (flags AND O_CREAT \<noteq> 0) (set_file_attr h p a) st1
                         | None \<Rightarrow> (Inr (), st1)) of
                     (Inl x, st2) \<Rightarrow> ((Inl x, attr'), st2)
                   | (Inr _, st2) \<Rightarrow>
                       (case host_do (Fdopen fd (fdopen_mode flags))
                               (os_fdopen h fd (fdopen_mode flags)) st2 of
                          (Inl (OSError e), st3) \<Rightarrow> ((Inr (Status (convert_errno e)), attr'), st3)
                        | (Inl x, st3) \<Rightarrow> ((Inl x, attr'), st3)
                        | (Inr f, st3) \<Rightarrow>
                            ((Inr (Handle \<lparr>handle_flags = flags, handle_filename = p,
                                            readfile = f, writefile = f\<rparr>), attr'), st3)))))"

definition remove ::
  "string \<Rightarrow> string \<Rightarrow> 'w host \<Rightarrow> string \<Rightarrow> 'w hstate \<Rightarrow> (exn + reply) \<times> 'w hstate" where
  "remove ROOT cwd h path st =
     (case realpath ROOT cwd path of
        Inl e \<Rightarrow> (Inl e, st)
      | Inr p \<Rightarrow>
          except_OSError
            (bind_x (host_do (Remove p) (os_remove h p)) (\<lambda>_ st'.
               (Inr (Status SFTP_OK), st'))) st)"

definition rename ::
  "string \<Rightarrow> string \<Rightarrow> 'w host \<Rightarrow> string \<Rightarrow> string \<Rightarrow> 'w hstate
   \<Rightarrow> (exn + reply) \<times> 'w hstate" where
  "rename ROOT cwd h oldpath newpath st =
     (case realpath ROOT cwd oldpath of
        Inl e \<Rightarrow> (Inl e, st)
      | Inr old \<Rightarrow>
          (case realpath ROOT cwd newpath of
             Inl e \<Rightarrow> (Inl e, st)
           | Inr new \<Rightarrow>
               except_OSError
                 (bind_x (host_do (Rename old new) (os_rename h old new)) (\<lambda>_ st'.
                    (Inr (Status SFTP_OK), st'))) st))"

definition mkdir ::
  "string \<Rightarrow> string \<Rightarrow> 'w host \<Rightarrow> string \<Rightarrow> sftp_attributes option \<Rightarrow> 'w hstate
   \<Rightarrow> (exn + reply) \<times> 'w hstate" where
  "mkdir ROOT cwd h path attr st =
     (case realpath ROOT cwd path of
        Inl e \<Rightarrow> (Inl e, st)
      | Inr p \<Rightarrow>
          except_OSError
            (bind_x (host_do (Mkdir p) (os_mkdir h p)) (\<lambda>_.
             bind_x (case attr of None \<Rightarrow> (\<lambda>st'. (Inr (), st')) | Some a \<Rightarrow> set_file_attr h p a)
               (\<lambda>_ st'. (Inr (Status SFTP_OK), st')))) st)"

definition rmdir ::
  "string \<Rightarrow> string \<Rightarrow> 'w host \<Rightarrow> string \<Rightarrow> 'w hstate \<Rightarrow> (exn + reply) \<times> 'w hstate" where
  "rmdir ROOT cwd h path st =
     (case realpath ROOT cwd path of
        Inl e \<Rightarrow> (Inl e, st)
      | Inr p \<Rightarrow>
          except_OSError
            (bind_x (host_do (Rmdir p) (os_rmdir h p)) (\<lambda>_ st'.
               (Inr (Status SFTP_OK), st'))) st)"

definition chattr ::
  "string \<Rightarrow> string \<Rightarrow> 'w host \<Rightarrow> string \<Rightarrow> sftp_attributes \<Rightarrow> 'w hstate
   \<Rightarrow> (exn + reply) \<times> 'w hstate" where
  "chattr ROOT cwd h path attr st =
     (case realpath ROOT cwd path of
        Inl e \<Rightarrow> (Inl e, st)
      | Inr p \<Rightarrow>
          except_OSError
            (bind_x (set_file_attr h p attr) (\<lambda>_ st'. (Inr (Status SFTP_OK), st'))) st)"

text \<open>
  \<^verbatim>\<open>symlink\<close> (lines 210-229): the target the method hands to \<^verbatim>\<open>os.symlink\<close>.
  \<^verbatim>\<open>
  if (len(target_path) > 0) and (target_path[0] == "/"):
      target_path = os.path.join(self.ROOT, target_path[1:])
      if target_path[:2] == "//":
          target_path = target_path[1:]
  else:
      abspath = os.path.join(os.path.dirname(path), target_path)
      if abspath[: len(self.ROOT)] != self.ROOT:
          target_path = "<error>"
  \<close>
  \<open>path\<close> is the resolved path of the link.
\<close>

definition symlink_target :: "string \<Rightarrow> string \<Rightarrow> string \<Rightarrow> string" where
  "symlink_target ROOT path target_path =
     (if length target_path > 0 \<and> hd target_path = CHR ''/''
      then (let t = path_join ROOT (drop 1 target_path)
            in if take 2 t = ''//'' then drop 1 t else t)
      else (let joined = path_join (dirname path) target_path
            in if take (length ROOT) joined \<noteq> ROOT then ''<error>'' else target_path))"

definition symlink ::
  "string \<Rightarrow> string \<Rightarrow> 'w host \<Rightarrow> string \<Rightarrow> string \<Rightarrow> 'w hstate
   \<Rightarrow> (exn + reply) \<times> 'w hstate" where
  "symlink ROOT cwd h target_path path st =
     (case realpath ROOT cwd path of
        Inl e \<Rightarrow> (Inl e, st)
      | Inr p \<Rightarrow>
          let target = symlink_target ROOT p target_path in
          except_OSError
            (bind_x (host_do (Symlink target p) (os_symlink h target p)) (\<lambda>_ st'.
               (Inr (Status SFTP_OK), st'))) st)"

text \<open>
  \<^verbatim>\<open>readlink\<close> (lines 231-246): what the method makes of the target the host returns.
  \<^verbatim>\<open>
  if os.path.isabs(symlink):
      if symlink[: len(self.ROOT)] == self.ROOT:
          symlink = symlink[len(self.ROOT) :]
          if (len(symlink) == 0) or (symlink[0] != "/"):
              symlink = "/" + symlink
      else:
          symlink = "<error>"
  \<close>
\<close>

definition readlink_result :: "string \<Rightarrow> string \<Rightarrow> string" where
  "readlink_result ROOT link =
     (if isabs link
      then (if take (length ROOT) link = ROOT
            then (let rest = drop (length ROOT) link
                  in if length rest = 0 \<or> hd rest \<noteq> CHR ''/'' then ''/'' @ rest else rest)
            else ''<error>'')
      else link)"

definition readlink ::
  "string \<Rightarrow> string \<Rightarrow> 'w host \<Rightarrow> string \<Rightarrow> 'w hstate \<Rightarrow> (exn + reply) \<times> 'w hstate" where
  "readlink ROOT cwd h path st =
     (case realpath ROOT cwd path of
        Inl e \<Rightarrow> (Inl e, st)
      | Inr p \<Rightarrow>
          (case host_do (Readlink p) (os_readlink h p) st of
             (Inl (OSError e), st') \<Rightarrow> (Inr (Status (convert_errno e)), st')
           | (Inl x, st') \<Rightarrow> (Inl x, st')
           | (Inr link, st') \<Rightarrow> (Inr (Target (readlink_result ROOT link)), st')))"

section \<open>A small POSIX host, to run the adapter on\<close>

text \<open>
  A concrete host for the parameter above. A node is a regular file (permission bits,
  owner, group, size), a directory or a symbolic link with its target; the state holds
  the nodes by absolute path, the effective user and group of the server process and the
  paths of the open descriptors, and its umask. A symbolic link is followed in the last
  component of a path, by the calls that POSIX says follow it. Opening a file needs the
  permission bits for the access asked for (owner, group or other, as the process is;
  the superuser needs none), a file is created with the mode less the umask, and
  \<^verbatim>\<open>chmod\<close> and \<^verbatim>\<open>chown\<close> make their owner checks. Links in directory components
  and the permission bits of directories are outside this model: every directory is
  taken as searchable and writable by the server.
\<close>

datatype node = File int int int int | Dir | Link string

record world =
  nodes :: "(string \<times> node) list"
  euid :: int
  egid :: int
  fds :: "string list"
  umask :: int

definition lookup :: "world \<Rightarrow> string \<Rightarrow> node option" where
  "lookup w p = map_of (nodes w) p"

definition put :: "string \<Rightarrow> node \<Rightarrow> world \<Rightarrow> world" where
  "put p n w = w\<lparr>nodes := (p, n) # filter (\<lambda>e. fst e \<noteq> p) (nodes w)\<rparr>"

definition del :: "string \<Rightarrow> world \<Rightarrow> world" where
  "del p w = w\<lparr>nodes := filter (\<lambda>e. fst e \<noteq> p) (nodes w)\<rparr>"

definition is_dir :: "world \<Rightarrow> string \<Rightarrow> bool" where
  "is_dir w p = (case lookup w p of Some Dir \<Rightarrow> True | _ \<Rightarrow> False)"

definition children :: "world \<Rightarrow> string \<Rightarrow> string list" where
  "children w p = filter (\<lambda>q. q \<noteq> p \<and> dirname q = p) (map fst (nodes w))"

definition basename :: "string \<Rightarrow> string" where
  "basename p = rev (takeWhile (\<lambda>c. c \<noteq> CHR ''/'') (rev p))"

text \<open>Following a link in the last component, at most 40 times as Linux does.\<close>

fun follow :: "nat \<Rightarrow> world \<Rightarrow> string \<Rightarrow> nat + string" where
  "follow 0 w p = Inl ELOOP"
| "follow (Suc n) w p =
     (case lookup w p of
        Some (Link t) \<Rightarrow> follow n w (normpath (path_join (dirname p) t))
      | _ \<Rightarrow> Inr p)"

definition S_IFREG :: int where "S_IFREG = 32768"
definition S_IFDIR :: int where "S_IFDIR = 16384"
definition S_IFLNK :: int where "S_IFLNK = 40960"

definition stat_of :: "world \<Rightarrow> node \<Rightarrow> stat_result" where
  "stat_of w n =
     (case n of
        File m u g sz \<Rightarrow>
          \<lparr>s_mode = S_IFREG OR m, s_size = sz, s_uid = u, s_gid = g, s_atime = 0, s_mtime = 0\<rparr>
      | Dir \<Rightarrow>
          \<lparr>s_mode = S_IFDIR OR 493, s_size = 4096, s_uid = euid w, s_gid = egid w,
           s_atime = 0, s_mtime = 0\<rparr>
      | Link t \<Rightarrow>
          \<lparr>s_mode = S_IFLNK OR 511, s_size = int (length t), s_uid = euid w, s_gid = egid w,
           s_atime = 0, s_mtime = 0\<rparr>)"

definition posix_lstat :: "string \<Rightarrow> world \<Rightarrow> (nat + stat_result) \<times> world" where
  "posix_lstat p w =
     (case lookup w p of None \<Rightarrow> (Inl ENOENT, w) | Some n \<Rightarrow> (Inr (stat_of w n), w))"

definition posix_stat :: "string \<Rightarrow> world \<Rightarrow> (nat + stat_result) \<times> world" where
  "posix_stat p w =
     (case follow 40 w p of
        Inl e \<Rightarrow> (Inl e, w)
      | Inr q \<Rightarrow> posix_lstat q w)"

definition posix_listdir :: "string \<Rightarrow> world \<Rightarrow> (nat + string list) \<times> world" where
  "posix_listdir p w =
     (case follow 40 w p of
        Inl e \<Rightarrow> (Inl e, w)
      | Inr q \<Rightarrow>
          (case lookup w q of
             None \<Rightarrow> (Inl ENOENT, w)
           | Some Dir \<Rightarrow> (Inr (map basename (children w q)), w)
           | Some _ \<Rightarrow> (Inl ENOTDIR, w)))"

text \<open>
  The permission check of \<^verbatim>\<open>open\<close>: \<open>want\<close> is 4 to read, 2 to write, 6 for both.
  The flags ask to read unless \<^verbatim>\<open>O_WRONLY\<close>, to write with \<^verbatim>\<open>O_WRONLY\<close>,
  \<^verbatim>\<open>O_RDWR\<close> or \<^verbatim>\<open>O_TRUNC\<close>.
\<close>

definition may_access :: "world \<Rightarrow> int \<Rightarrow> int \<Rightarrow> int \<Rightarrow> int \<Rightarrow> bool" where
  "may_access w m u g want =
     (euid w = 0
      \<or> (if euid w = u then drop_bit 6 m else if egid w = g then drop_bit 3 m else m)
            AND want = want)"

definition wanted :: "int \<Rightarrow> int" where
  "wanted flags =
     (if flags AND O_WRONLY \<noteq> 0 then 2
      else if flags AND O_RDWR \<noteq> 0 then 6
      else if flags AND O_TRUNC \<noteq> 0 then 6
      else 4)"

definition new_fd :: "string \<Rightarrow> world \<Rightarrow> (nat + nat) \<times> world" where
  "new_fd q w = (Inr (3 + length (fds w)), w\<lparr>fds := fds w @ [q]\<rparr>)"

definition posix_open :: "string \<Rightarrow> int \<Rightarrow> int \<Rightarrow> world \<Rightarrow> (nat + nat) \<times> world" where
  "posix_open p flags mode w =
     (if flags AND O_CREAT \<noteq> 0 \<and> flags AND O_EXCL \<noteq> 0 \<and> lookup w p \<noteq> None
      then (Inl EEXIST, w)
      else if flags AND O_NOFOLLOW \<noteq> 0 \<and> (case lookup w p of Some (Link t) \<Rightarrow> True | _ \<Rightarrow> False)
      then (Inl ELOOP, w)
      else
        (case follow 40 w p of
           Inl e \<Rightarrow> (Inl e, w)
         | Inr q \<Rightarrow>
             (case lookup w q of
                Some (File m u g sz) \<Rightarrow>
                  (if \<not> may_access w m u g (wanted flags) then (Inl EACCES, w)
                   else new_fd q (if flags AND O_TRUNC \<noteq> 0 then put q (File m u g 0) w else w))
              | Some Dir \<Rightarrow>
                  (if flags AND (O_WRONLY OR O_RDWR OR O_CREAT) \<noteq> 0 then (Inl EISDIR, w)
                   else new_fd q w)
              | Some (Link t) \<Rightarrow> (Inl ELOOP, w)
              | None \<Rightarrow>
                  (if flags AND O_CREAT = 0 \<or> \<not> is_dir w (dirname q) then (Inl ENOENT, w)
                   else new_fd q
                          (put q (File ((mode AND NOT (umask w)) AND 4095) (euid w) (egid w) 0)
                             w)))))"

definition posix_fdopen :: "nat \<Rightarrow> string \<Rightarrow> world \<Rightarrow> (nat + nat) \<times> world" where
  "posix_fdopen fd mode w =
     (if 3 \<le> fd \<and> fd < 3 + length (fds w) then (Inr fd, w) else (Inl EBADF, w))"

text \<open>\<^verbatim>\<open>os.remove\<close> is \<^verbatim>\<open>unlink\<close>: it removes the name it is given, link or file.\<close>

definition posix_remove :: "string \<Rightarrow> world \<Rightarrow> (nat + unit) \<times> world" where
  "posix_remove p w =
     (case lookup w p of
        None \<Rightarrow> (Inl ENOENT, w)
      | Some Dir \<Rightarrow> (Inl EISDIR, w)
      | Some _ \<Rightarrow> (Inr (), del p w))"

definition move :: "string \<Rightarrow> string \<Rightarrow> world \<Rightarrow> world" where
  "move a b w =
     w\<lparr>nodes :=
         map (\<lambda>e. (if fst e = a then b
                    else if prefix (a @ ''/'') (fst e) then b @ drop (length a) (fst e)
                    else fst e, snd e))
           (filter (\<lambda>e. fst e \<noteq> b) (nodes w))\<rparr>"

definition posix_rename :: "string \<Rightarrow> string \<Rightarrow> world \<Rightarrow> (nat + unit) \<times> world" where
  "posix_rename a b w =
     (case lookup w a of
        None \<Rightarrow> (Inl ENOENT, w)
      | Some n \<Rightarrow>
          (if \<not> is_dir w (dirname b) then (Inl ENOENT, w)
           else if a = b then (Inr (), w)
           else if prefix (a @ ''/'') b then (Inl EINVAL, w)
           else
             (case lookup w b of
                None \<Rightarrow> (Inr (), move a b w)
              | Some Dir \<Rightarrow>
                  (if n \<noteq> Dir then (Inl EISDIR, w)
                   else if children w b \<noteq> [] then (Inl ENOTEMPTY, w)
                   else (Inr (), move a b w))
              | Some _ \<Rightarrow>
                  (if n = Dir then (Inl ENOTDIR, w) else (Inr (), move a b w)))))"

definition posix_mkdir :: "string \<Rightarrow> world \<Rightarrow> (nat + unit) \<times> world" where
  "posix_mkdir p w =
     (if lookup w p \<noteq> None then (Inl EEXIST, w)
      else if \<not> is_dir w (dirname p) then (Inl ENOENT, w)
      else (Inr (), put p Dir w))"

definition posix_rmdir :: "string \<Rightarrow> world \<Rightarrow> (nat + unit) \<times> world" where
  "posix_rmdir p w =
     (case lookup w p of
        None \<Rightarrow> (Inl ENOENT, w)
      | Some Dir \<Rightarrow> (if children w p \<noteq> [] then (Inl ENOTEMPTY, w) else (Inr (), del p w))
      | Some _ \<Rightarrow> (Inl ENOTDIR, w))"

text \<open>
  \<^verbatim>\<open>chmod\<close>, \<^verbatim>\<open>chown\<close>, \<^verbatim>\<open>utime\<close> and \<^verbatim>\<open>open(..., "w+")\<close> follow a link. Only the
  owner or the superuser changes the mode of a file; only the superuser gives a file to
  another user.
\<close>

text \<open>
  The mode \<^verbatim>\<open>chmod\<close> receives is a C \<^verbatim>\<open>int\<close> (\<open>chmod_step\<close> has raised on any other);
  the kernel keeps its low twelve bits.
\<close>

definition posix_chmod :: "string \<Rightarrow> int \<Rightarrow> world \<Rightarrow> (nat + unit) \<times> world" where
  "posix_chmod p m w =
     (case follow 40 w p of
        Inl e \<Rightarrow> (Inl e, w)
      | Inr q \<Rightarrow>
          (case lookup w q of
             None \<Rightarrow> (Inl ENOENT, w)
           | Some (File m0 u g sz) \<Rightarrow>
               (if euid w \<noteq> 0 \<and> euid w \<noteq> u then (Inl EPERM, w)
                else (Inr (), put q (File (m AND 4095) u g sz) w))
           | Some _ \<Rightarrow> (Inr (), w)))"

definition posix_chown :: "string \<Rightarrow> int \<Rightarrow> int \<Rightarrow> world \<Rightarrow> (nat + unit) \<times> world" where
  "posix_chown p u g w =
     (case follow 40 w p of
        Inl e \<Rightarrow> (Inl e, w)
      | Inr q \<Rightarrow>
          (case lookup w q of
             None \<Rightarrow> (Inl ENOENT, w)
           | Some (File m u0 g0 sz) \<Rightarrow>
               (if euid w \<noteq> 0 \<and> \<not> (euid w = u0 \<and> u = u0) then (Inl EPERM, w)
                else (Inr (), put q (File m u g sz) w))
           | Some _ \<Rightarrow> (if euid w \<noteq> 0 then (Inl EPERM, w) else (Inr (), w))))"

definition posix_utime :: "string \<Rightarrow> int \<Rightarrow> int \<Rightarrow> world \<Rightarrow> (nat + unit) \<times> world" where
  "posix_utime p a m w =
     (case follow 40 w p of
        Inl e \<Rightarrow> (Inl e, w)
      | Inr q \<Rightarrow> (case lookup w q of None \<Rightarrow> (Inl ENOENT, w) | Some _ \<Rightarrow> (Inr (), w)))"

definition posix_truncate :: "string \<Rightarrow> int \<Rightarrow> world \<Rightarrow> (nat + unit) \<times> world" where
  "posix_truncate p n w =
     (case follow 40 w p of
        Inl e \<Rightarrow> (Inl e, w)
      | Inr q \<Rightarrow>
          (case lookup w q of
             Some (File m u g sz) \<Rightarrow>
               (if \<not> may_access w m u g 6 then (Inl EACCES, w)
                else if n < 0 then (Inl EINVAL, put q (File m u g 0) w)
                else (Inr (), put q (File m u g n) w))
           | Some _ \<Rightarrow> (Inl EISDIR, w)
           | None \<Rightarrow>
               (if \<not> is_dir w (dirname q) then (Inl ENOENT, w)
                else if n < 0
                then (Inl EINVAL, put q (File (438 AND NOT (umask w)) (euid w) (egid w) 0) w)
                else (Inr (), put q (File (438 AND NOT (umask w)) (euid w) (egid w) n) w))))"

definition posix_symlink :: "string \<Rightarrow> string \<Rightarrow> world \<Rightarrow> (nat + unit) \<times> world" where
  "posix_symlink t p w =
     (if lookup w p \<noteq> None then (Inl EEXIST, w)
      else if \<not> is_dir w (dirname p) then (Inl ENOENT, w)
      else (Inr (), put p (Link t) w))"

definition posix_readlink :: "string \<Rightarrow> world \<Rightarrow> (nat + string) \<times> world" where
  "posix_readlink p w =
     (case lookup w p of
        None \<Rightarrow> (Inl ENOENT, w)
      | Some (Link t) \<Rightarrow> (Inr t, w)
      | Some _ \<Rightarrow> (Inl EINVAL, w))"

definition posix :: "world host" where
  "posix =
     \<lparr>os_listdir = posix_listdir, os_lstat = posix_lstat, os_stat = posix_stat,
      os_open = posix_open, os_fdopen = posix_fdopen, os_remove = posix_remove,
      os_rename = posix_rename, os_mkdir = posix_mkdir, os_rmdir = posix_rmdir,
      os_chmod = posix_chmod, os_chown = posix_chown, os_utime = posix_utime,
      os_truncate = posix_truncate, os_symlink = posix_symlink,
      os_readlink = posix_readlink\<rparr>"

text \<open>
  The host of the examples: the server runs as user 1000 with umask 022 and the root
  \<^verbatim>\<open>/srv/root\<close>;
  beside the root lies \<^verbatim>\<open>/srv/root_evil\<close>, \<^verbatim>\<open>/etc/passwd\<close> belongs to the
  superuser, and two links in the root point out of it.
\<close>

definition example_world :: world where
  "example_world =
     \<lparr>nodes =
        [(''/'', Dir), (''/etc'', Dir), (''/etc/passwd'', File 420 0 0 1000),
         (''/srv'', Dir), (''/srv/root'', Dir), (''/srv/root/a.txt'', File 420 1000 1000 5),
         (''/srv/root/out'', Link ''/etc/passwd''),
         (''/srv/root/sib'', Link ''/srv/root_evil/x''),
         (''/srv/root_evil'', Dir), (''/srv/root_evil/x'', File 420 1000 1000 7)],
      euid = 1000, egid = 1000, fds = [], umask = 18\<rparr>"

section \<open>A host on which a path is a symbolic link\<close>

text \<open>
  On a POSIX host a symbolic link at \<open>p\<close> that resolves to \<open>q\<close> makes the calls that follow
  a link in the last component act on \<open>q\<close>: \<^verbatim>\<open>stat\<close>, \<^verbatim>\<open>listdir\<close>, \<^verbatim>\<open>chmod\<close>,
  \<^verbatim>\<open>chown\<close>, \<^verbatim>\<open>utime\<close>, \<^verbatim>\<open>open(..., "w+")\<close>, and \<^verbatim>\<open>open\<close> unless the flags hold
  \<^verbatim>\<open>O_NOFOLLOW\<close> or both \<^verbatim>\<open>O_CREAT\<close> and \<^verbatim>\<open>O_EXCL\<close>. The calls that act on the
  name itself are left as they are: \<^verbatim>\<open>lstat\<close>, \<^verbatim>\<open>readlink\<close>, \<^verbatim>\<open>remove\<close> (unlink),
  \<^verbatim>\<open>rename\<close>, \<^verbatim>\<open>mkdir\<close>, \<^verbatim>\<open>rmdir\<close>, \<^verbatim>\<open>symlink\<close>. \<open>redirect p q h\<close> is the host
  \<open>h\<close> with such a link; whatever \<open>h\<close> does at \<open>q\<close> (permissions included) is what the
  following calls do at \<open>p\<close>.
\<close>

definition open_follows :: "int \<Rightarrow> bool" where
  "open_follows flags =
     (flags AND O_NOFOLLOW = 0 \<and> (flags AND O_CREAT = 0 \<or> flags AND O_EXCL = 0))"

definition redirect :: "string \<Rightarrow> string \<Rightarrow> 'w host \<Rightarrow> 'w host" where
  "redirect p q h =
     h\<lparr>os_listdir := (\<lambda>x. os_listdir h (if x = p then q else x)),
       os_stat := (\<lambda>x. os_stat h (if x = p then q else x)),
       os_open := (\<lambda>x flags. os_open h (if x = p \<and> open_follows flags then q else x) flags),
       os_chmod := (\<lambda>x. os_chmod h (if x = p then q else x)),
       os_chown := (\<lambda>x. os_chown h (if x = p then q else x)),
       os_utime := (\<lambda>x. os_utime h (if x = p then q else x)),
       os_truncate := (\<lambda>x. os_truncate h (if x = p then q else x))\<rparr>"



text \<open>Attributes used in the examples, and the test for a recorded \<^verbatim>\<open>os.chmod\<close>.\<close>

definition chown_attr :: sftp_attributes where
  "chown_attr =
     \<lparr>attr_flags = FLAG_UIDGID, st_size = None, st_uid = Some 0, st_gid = Some 0,
      st_mode = None, st_atime = None, st_mtime = None, filename = None\<rparr>"

definition amtime_attr :: sftp_attributes where
  "amtime_attr =
     \<lparr>attr_flags = FLAG_AMTIME, st_size = None, st_uid = None, st_gid = None,
      st_mode = None, st_atime = Some 10, st_mtime = Some 20, filename = None\<rparr>"


fun is_chmod :: "host_call \<Rightarrow> bool" where
  "is_chmod (Chmod p m) = True"
| "is_chmod c = False"

section \<open>The server: \<^verbatim>\<open>SFTPServer\<close> (sftp_server.py)\<close>

text \<open>
  What \<^verbatim>\<open>generate_rsa_key_pair\<close> writes: the private key, identified by its size and
  public exponent (the key material is random), with the encoding, format and
  encryption of \<^verbatim>\<open>private_bytes\<close>.
\<close>

datatype encoding = PEM | DER
datatype private_format = TraditionalOpenSSL | PKCS8
datatype encryption = NoEncryption | BestAvailableEncryption string

record rsa_private_key =
  public_exponent :: nat
  key_size :: nat

datatype file_content =
    PrivateBytes rsa_private_key encoding private_format encryption
  | OtherBytes string

text \<open>
  The state of the Python process that the server reads and writes: the class attribute
  \<^verbatim>\<open>StubSFTPServer.ROOT\<close>, the files by path, the errno with which
  \<^verbatim>\<open>open(path, "wb")\<close> fails for a path (if it does), the working directory and the
  lines logged.
\<close>

text \<open>
  The lines the server logs, one constructor per call of \<^verbatim>\<open>logging.info\<close> or
  \<^verbatim>\<open>logging.error\<close>: "Server is already running.", "Server started on host:port",
  "Server is not running.", "Server stopped.", "Private key saved to path",
  "Connection from addr", "Transport channel accepted", and the message of a caught
  exception.
\<close>

datatype log_line =
    LogAlreadyRunning
  | LogStarted string nat
  | LogNotRunning
  | LogStopped
  | LogKeySaved string
  | LogConnection
  | LogChannelAccepted
  | LogError string

record process =
  StubSFTPServer_ROOT :: string
  files :: "string \<Rightarrow> file_content option"
  open_wb_error :: "string \<Rightarrow> nat option"
  getcwd :: string
  logged :: "log_line list"

datatype socket_state = Created | Listening | Closed
datatype thread_state = Started | Joined

record server =
  key_filename :: string
  host :: string
  port :: nat
  level :: string
  server_socket :: "socket_state option"
  is_running :: bool
  thread :: "thread_state option"
  backlog :: int
  start_timeout :: int
  root_path :: string

definition HOST :: string where "HOST = ''localhost''"
definition PORT :: nat where "PORT = 3373"
definition BACKLOG :: int where "BACKLOG = 10"

definition logging_info :: "log_line \<Rightarrow> process \<Rightarrow> process" where
  "logging_info msg g = g\<lparr>logged := logged g @ [msg]\<rparr>"

text \<open>
  \<^verbatim>\<open>generate_rsa_key_pair(self, key_size=2048)\<close> (lines 175-188): the public exponent
  is 65537; the file is opened with \<^verbatim>\<open>"wb"\<close>, which may raise.
\<close>

definition generate_rsa_key_pair :: "string \<Rightarrow> nat \<Rightarrow> process \<Rightarrow> exn + process" where
  "generate_rsa_key_pair name ksize g =
     (let private_key = \<lparr>public_exponent = 65537, key_size = ksize\<rparr>
      in case open_wb_error g name of
           Some e \<Rightarrow> Inl (OSError e)
         | None \<Rightarrow>
             Inr (logging_info (LogKeySaved name)
                    (g\<lparr>files := (files g)(name \<mapsto>
                          PrivateBytes private_key PEM TraditionalOpenSSL NoEncryption)\<rparr>)))"

text \<open>
  \<^verbatim>\<open>SFTPServer.__init__\<close> (lines 71-99). \<^verbatim>\<open>os.path.exists\<close> is the presence of the
  file; the float \<^verbatim>\<open>start_timeout\<close> is only stored, here as a number of milliseconds.
\<close>

record init_args =
  arg_key_filename :: string
  arg_host :: "string option"
  arg_port :: "nat option"
  arg_level :: string
  arg_backlog :: int
  arg_root_path :: string
  arg_start_timeout :: int

definition init :: "init_args \<Rightarrow> process \<Rightarrow> exn + server \<times> process" where
  "init a g =
     (case (if files g (arg_key_filename a) = None
            then generate_rsa_key_pair (arg_key_filename a) 2048 g else Inr g) of
        Inl e \<Rightarrow> Inl e
      | Inr g' \<Rightarrow>
          let self =
                \<lparr>key_filename = arg_key_filename a,
                 host = (case arg_host a of Some x \<Rightarrow> x | None \<Rightarrow> HOST),
                 port = (case arg_port a of Some x \<Rightarrow> x | None \<Rightarrow> PORT),
                 level = (if arg_level a \<in> set [''DEBUG'', ''INFO'', ''WARNING'', ''ERROR'',
                                                ''CRITICAL'']
                          then arg_level a else ''INFO''),
                 server_socket = None,
                 is_running = False,
                 thread = None,
                 backlog = arg_backlog a,
                 start_timeout = arg_start_timeout a,
                 root_path = (if arg_root_path a = [] then getcwd g' else arg_root_path a)\<rparr>
          in Inr (self, g'\<lparr>StubSFTPServer_ROOT := root_path self\<rparr>))"

text \<open>
  \<^verbatim>\<open>start\<close> (lines 108-118). The new thread runs \<^verbatim>\<open>_run_server\<close> beside the caller;
  what that body does is \<open>run_server\<close> below, and \<open>start\<close> is the caller's side.
\<close>

definition start :: "server \<Rightarrow> process \<Rightarrow> (exn + unit) \<times> server \<times> process" where
  "start self g =
     (if is_running self then (Inr (), self, logging_info LogAlreadyRunning g)
      else
        (Inr (), self\<lparr>is_running := True, thread := Some Started\<rparr>,
         logging_info (LogStarted (host self) (port self)) g))"

text \<open>
  \<^verbatim>\<open>_run_server\<close> (lines 130-160). The socket is created, then bound, which may raise
  outside any handler; the loop runs while \<^verbatim>\<open>is_running\<close>. What happens while the loop
  waits in \<^verbatim>\<open>accept\<close> is a list of events: a connection served to its end, a connection
  whose handling raises (caught and logged), or \<^verbatim>\<open>stop\<close> called from another thread,
  which clears the flag and closes the socket so that \<^verbatim>\<open>accept\<close> raises (caught and
  logged with the message the event carries). When the events
  run out while the flag is set, the loop is still waiting: \<open>None\<close>.
\<close>

datatype event = Served | Failed string | StopCalled string

fun accept_loop :: "event list \<Rightarrow> server \<Rightarrow> process \<Rightarrow> (server \<times> process) option" where
  "accept_loop [] self g = (if is_running self then None else Some (self, g))"
| "accept_loop (e # es) self g =
     (if \<not> is_running self then Some (self, g)
      else (case e of
              Served \<Rightarrow>
                accept_loop es self (logging_info LogChannelAccepted (logging_info LogConnection g))
            | Failed msg \<Rightarrow> accept_loop es self (logging_info (LogError msg) g)
            | StopCalled msg \<Rightarrow>
                accept_loop es (self\<lparr>is_running := False, server_socket := Some Closed\<rparr>)
                  (logging_info (LogError msg) (logging_info LogStopped g))))"

definition run_server ::
  "nat option \<Rightarrow> event list \<Rightarrow> server \<Rightarrow> process \<Rightarrow> ((exn + unit) \<times> server \<times> process) option" where
  "run_server bind_error events self g =
     (case bind_error of
        Some e \<Rightarrow> Some (Inl (OSError e), self\<lparr>server_socket := Some Created\<rparr>, g)
      | None \<Rightarrow>
          (case accept_loop events (self\<lparr>server_socket := Some Listening\<rparr>) g of
             None \<Rightarrow> None
           | Some (self', g') \<Rightarrow> Some (Inr (), self', g')))"

text \<open>\<^verbatim>\<open>start_sync\<close> (lines 120-128).\<close>

definition start_sync ::
  "nat option \<Rightarrow> event list \<Rightarrow> server \<Rightarrow> process \<Rightarrow> ((exn + unit) \<times> server \<times> process) option" where
  "start_sync bind_error events self g =
     (if is_running self
      then Some (Inr (), self, logging_info LogAlreadyRunning g)
      else run_server bind_error events (self\<lparr>is_running := True\<rparr>)
             (logging_info (LogStarted (host self) (port self)) g))"

text \<open>\<^verbatim>\<open>stop\<close> (lines 162-173).\<close>

definition stop :: "server \<Rightarrow> process \<Rightarrow> (exn + unit) \<times> server \<times> process" where
  "stop self g =
     (if \<not> is_running self then (Inr (), self, logging_info LogNotRunning g)
      else
        let s1 = self\<lparr>is_running := False\<rparr>;
            s2 = (case server_socket s1 of
                    Some _ \<Rightarrow> s1\<lparr>server_socket := Some Closed\<rparr> | None \<Rightarrow> s1);
            g2 = (case server_socket s1 of
                    Some _ \<Rightarrow> logging_info LogStopped g | None \<Rightarrow> g);
            s3 = (case thread s2 of Some _ \<Rightarrow> s2\<lparr>thread := Some Joined\<rparr> | None \<Rightarrow> s2)
        in (Inr (), s3, g2))"

text \<open>
  The whole program: the process state, the servers constructed so far and the host.
  An activity is a construction, a lifecycle call on a server, the body of the thread
  that \<^verbatim>\<open>start\<close> created (\<^verbatim>\<open>_run_server\<close>, taken as one step), or a request a session
  hands to the adapter, which reads \<^verbatim>\<open>StubSFTPServer.ROOT\<close> and the working directory
  of the process.
\<close>

datatype request =
    ReqListFolder string
  | ReqStat string
  | ReqLstat string
  | ReqOpen string int "sftp_attributes option"
  | ReqRemove string
  | ReqRename string string
  | ReqMkdir string "sftp_attributes option"
  | ReqRmdir string
  | ReqChattr string sftp_attributes
  | ReqSymlink string string
  | ReqReadlink string

definition serve :: "string \<Rightarrow> string \<Rightarrow> 'w host \<Rightarrow> request \<Rightarrow> 'w hstate \<Rightarrow> 'w hstate" where
  "serve ROOT cwd h r st =
     (case r of
        ReqListFolder p \<Rightarrow> snd (list_folder ROOT cwd h p st)
      | ReqStat p \<Rightarrow> snd (stat ROOT cwd h p st)
      | ReqLstat p \<Rightarrow> snd (lstat ROOT cwd h p st)
      | ReqOpen p fl a \<Rightarrow> snd (sftp_open ROOT cwd h p fl a st)
      | ReqRemove p \<Rightarrow> snd (remove ROOT cwd h p st)
      | ReqRename p q \<Rightarrow> snd (rename ROOT cwd h p q st)
      | ReqMkdir p a \<Rightarrow> snd (mkdir ROOT cwd h p a st)
      | ReqRmdir p \<Rightarrow> snd (rmdir ROOT cwd h p st)
      | ReqChattr p a \<Rightarrow> snd (chattr ROOT cwd h p a st)
      | ReqSymlink t p \<Rightarrow> snd (symlink ROOT cwd h t p st)
      | ReqReadlink p \<Rightarrow> snd (readlink ROOT cwd h p st))"

datatype activity =
    Construct init_args
  | CallStart nat
  | CallStartSync nat "nat option" "event list"
  | ThreadRuns nat "nat option" "event list"
  | CallStop nat
  | Session request

record 'w program =
  proc :: process
  servers :: "server list"
  hoststate :: "'w hstate"

fun is_construct :: "activity \<Rightarrow> bool" where
  "is_construct (Construct a) = True"
| "is_construct x = False"

definition act :: "'w host \<Rightarrow> activity \<Rightarrow> 'w program \<Rightarrow> 'w program" where
  "act h a s =
     (case a of
        Construct args \<Rightarrow>
          (case init args (proc s) of
             Inl e \<Rightarrow> s
           | Inr (self, g) \<Rightarrow> s\<lparr>proc := g, servers := servers s @ [self]\<rparr>)
      | CallStart i \<Rightarrow>
          (if i < length (servers s)
           then (case start (servers s ! i) (proc s) of
                   (r, self, g) \<Rightarrow> s\<lparr>proc := g, servers := (servers s)[i := self]\<rparr>)
           else s)
      | CallStartSync i b evs \<Rightarrow>
          (if i < length (servers s)
           then (case start_sync b evs (servers s ! i) (proc s) of
                   Some (r, self, g) \<Rightarrow> s\<lparr>proc := g, servers := (servers s)[i := self]\<rparr>
                 | None \<Rightarrow> s)
           else s)
      | ThreadRuns i b evs \<Rightarrow>
          (if i < length (servers s)
           then (case run_server b evs (servers s ! i) (proc s) of
                   Some (r, self, g) \<Rightarrow> s\<lparr>proc := g, servers := (servers s)[i := self]\<rparr>
                 | None \<Rightarrow> s)
           else s)
      | CallStop i \<Rightarrow>
          (if i < length (servers s)
           then (case stop (servers s ! i) (proc s) of
                   (r, self, g) \<Rightarrow> s\<lparr>proc := g, servers := (servers s)[i := self]\<rparr>)
           else s)
      | Session r \<Rightarrow>
          s\<lparr>hoststate :=
              serve (StubSFTPServer_ROOT (proc s)) (getcwd (proc s)) h r (hoststate s)\<rparr>)"

fun run :: "'w host \<Rightarrow> activity list \<Rightarrow> 'w program \<Rightarrow> 'w program" where
  "run h [] s = s"
| "run h (a # as) s = run h as (act h a s)"

text \<open>
  The process and the constructor arguments of the examples: no key file at
  \<^verbatim>\<open>/tmp/key.pem\<close>, a file that is no key at \<^verbatim>\<open>/tmp/old.pem\<close>.
\<close>

definition example_process :: process where
  "example_process =
     \<lparr>StubSFTPServer_ROOT = ''/home/user'',
      files = (\<lambda>p. if p = ''/tmp/old.pem'' then Some (OtherBytes ''not a key'') else None),
      open_wb_error = (\<lambda>p. if p = ''/nodir/key.pem'' then Some ENOENT else None),
      getcwd = ''/home/user'', logged = []\<rparr>"

definition example_args :: "string \<Rightarrow> string \<Rightarrow> init_args" where
  "example_args key root =
     \<lparr>arg_key_filename = key, arg_host = None, arg_port = None, arg_level = ''INFO'',
      arg_backlog = BACKLOG, arg_root_path = root, arg_start_timeout = 1000\<rparr>"

definition example_program :: "world program" where
  "example_program = \<lparr>proc = example_process, servers = [], hoststate = (example_world, [])\<rparr>"

definition example_server :: server where
  "example_server =
     \<lparr>key_filename = ''/tmp/key.pem'', host = HOST, port = PORT, level = ''INFO'',
      server_socket = None, is_running = False, thread = None, backlog = BACKLOG,
      start_timeout = 1000, root_path = ''/srv/root''\<rparr>"

section \<open>Path resolution: what the check guarantees\<close>

lemma realpath_accepts_prefix:
  "realpath ROOT cwd path = Inr p \<Longrightarrow> prefix ROOT p"
  by (auto simp: realpath_def Let_def split: if_splits)

lemma realpath_result:
  "realpath ROOT cwd path = Inr p \<Longrightarrow> p = abspath cwd (path_join ROOT (normpath path))"
  by (auto simp: realpath_def Let_def split: if_splits)

text \<open>
  C1. Claimed: every host path \<^verbatim>\<open>_realpath\<close> returns lies inside the jailed root.
  The check is \<^verbatim>\<open>absolute_path.startswith(self.ROOT)\<close>, a comparison of strings: with
  the root \<^verbatim>\<open>/srv/root\<close> the client path \<^verbatim>\<open>../root_evil/x\<close> resolves to
  \<^verbatim>\<open>/srv/root_evil/x\<close>, which begins with the root's string, is returned, and is not
  inside the directory \<^verbatim>\<open>/srv/root\<close>.
\<close>

theorem C1_realpath_returns_sibling_of_root:
  "realpath ''/srv/root'' ''/'' ''../root_evil/x'' = Inr ''/srv/root_evil/x''
   \<and> \<not> inside_root ''/srv/root'' ''/srv/root_evil/x''"
  by code_simp

section \<open>The adapter: rejection and host errors\<close>

lemma host_do_calls: "snd (snd (host_do c f st)) = snd st @ [c]"
  by (simp add: host_do_def split: prod.splits sum.splits)

text \<open>
  A path that \<^verbatim>\<open>_realpath\<close> rejects ends every method with the \<^verbatim>\<open>ValueError\<close>, before
  any host call: the state, and with it the list of calls, is the one before the method.
\<close>

lemma realpath_error:
  "realpath ROOT cwd path = Inl e \<Longrightarrow>
   e = ValueError ''Access denied: path is outside the root directory.''"
  by (auto simp: realpath_def Let_def split: if_splits)

lemma rejected_path_no_host_call:
  assumes "realpath ROOT cwd path = Inl e"
  shows "list_folder ROOT cwd h path st = (Inl e, st)"
    and "stat ROOT cwd h path st = (Inl e, st)"
    and "lstat ROOT cwd h path st = (Inl e, st)"
    and "sftp_open ROOT cwd h path flags attr st = ((Inl e, attr), st)"
    and "remove ROOT cwd h path st = (Inl e, st)"
    and "rename ROOT cwd h path other st = (Inl e, st)"
    and "mkdir ROOT cwd h path attr st = (Inl e, st)"
    and "rmdir ROOT cwd h path st = (Inl e, st)"
    and "chattr ROOT cwd h path a st = (Inl e, st)"
    and "symlink ROOT cwd h target path st = (Inl e, st)"
    and "readlink ROOT cwd h path st = (Inl e, st)"
  using assms
  by (simp_all add: list_folder_def stat_def lstat_def sftp_open_def remove_def rename_def
      mkdir_def rmdir_def chattr_def symlink_def readlink_def)

lemma rejected_newpath_no_host_call:
  "realpath ROOT cwd oldpath = Inr p \<Longrightarrow> realpath ROOT cwd newpath = Inl e \<Longrightarrow>
   rename ROOT cwd h oldpath newpath st = (Inl e, st)"
  by (simp add: rename_def)

text \<open>
  C2. Claimed: for every client path whose resolution escapes the root, every method
  reports the rejection and makes no host call. The rejection is decided by the string
  comparison of C1 (the same defect): \<^verbatim>\<open>remove("../root_evil/x")\<close> under the root
  \<^verbatim>\<open>/srv/root\<close> is not rejected, returns \<^verbatim>\<open>SFTP_OK\<close> and has the host delete
  \<^verbatim>\<open>/srv/root_evil/x\<close>, a file outside the root.
\<close>

theorem C2_remove_outside_root_reaches_host:
  "\<not> inside_root ''/srv/root'' ''/srv/root_evil/x''
   \<and> lookup example_world ''/srv/root_evil/x'' = Some (File 420 1000 1000 7)
   \<and> (case remove ''/srv/root'' ''/'' posix ''../root_evil/x'' (example_world, []) of
        (r, w, calls) \<Rightarrow>
          r = Inr (Status SFTP_OK) \<and> calls = [Remove ''/srv/root_evil/x'']
          \<and> lookup w ''/srv/root_evil/x'' = None)"
  by code_simp

text \<open>
  Every handler \<^verbatim>\<open>except OSError\<close> turns the errno into the status of
  \<^verbatim>\<open>convert_errno\<close>; no \<^verbatim>\<open>OSError\<close> leaves a method whose host calls all stand inside
  the handler.
\<close>

lemma except_OSError_catches: "fst (except_OSError body st) \<noteq> Inl (OSError e)"
  by (simp add: except_OSError_def split: prod.splits sum.splits exn.splits)

lemma except_OSError_status:
  "body st = (Inl (OSError e), st') \<Longrightarrow>
   except_OSError body st = (Inr (Status (convert_errno e)), st')"
  by (simp add: except_OSError_def)

lemma guarded_methods_catch_OSError:
  "fst (list_folder ROOT cwd h path st) \<noteq> Inl (OSError e)"
  "fst (stat ROOT cwd h path st) \<noteq> Inl (OSError e)"
  "fst (lstat ROOT cwd h path st) \<noteq> Inl (OSError e)"
  "fst (remove ROOT cwd h path st) \<noteq> Inl (OSError e)"
  "fst (rename ROOT cwd h path other st) \<noteq> Inl (OSError e)"
  "fst (mkdir ROOT cwd h path attr st) \<noteq> Inl (OSError e)"
  "fst (rmdir ROOT cwd h path st) \<noteq> Inl (OSError e)"
  "fst (chattr ROOT cwd h path a st) \<noteq> Inl (OSError e)"
  "fst (symlink ROOT cwd h target path st) \<noteq> Inl (OSError e)"
  by (simp_all add: list_folder_def stat_def lstat_def remove_def rename_def mkdir_def
      rmdir_def chattr_def symlink_def realpath_def Let_def except_OSError_catches)

lemma convert_errno_table:
  "convert_errno EACCES = SFTP_PERMISSION_DENIED"
  "convert_errno ENOENT = SFTP_NO_SUCH_FILE"
  "convert_errno ENOTDIR = SFTP_NO_SUCH_FILE"
  "convert_errno EEXIST = SFTP_FAILURE"
  "convert_errno ENOTEMPTY = SFTP_FAILURE"
  "convert_errno EXDEV = SFTP_FAILURE"
  "convert_errno EPERM = SFTP_FAILURE"
  by (simp_all add: convert_errno_def EACCES_def ENOENT_def ENOTDIR_def EEXIST_def
      ENOTEMPTY_def EXDEV_def EPERM_def SFTP_FAILURE_def SFTP_NO_SUCH_FILE_def
      SFTP_PERMISSION_DENIED_def)

text \<open>
  C6. Claimed: in every method every host failure is caught and translated, and no host
  error leaves the adapter as an exception. In \<^verbatim>\<open>open\<close> the call
  \<^verbatim>\<open>SFTPServer.set_file_attr(path, attr)\<close> of line 138 stands after the first handler and
  before the second (\<^verbatim>\<open>mkdir\<close> and \<^verbatim>\<open>chattr\<close> make the same call inside their
  handler): creating a file with owner attributes as a user who may not give files away,
  the \<^verbatim>\<open>OSError\<close> of \<^verbatim>\<open>os.chown\<close> (EPERM) leaves \<^verbatim>\<open>open\<close>, where \<^verbatim>\<open>chattr\<close> with
  the same attributes returns \<^verbatim>\<open>SFTP_FAILURE\<close>.
\<close>

theorem C6_open_lets_OSError_escape:
  "(case sftp_open ''/srv/root'' ''/'' posix ''new.txt'' (O_WRONLY OR O_CREAT)
          (Some chown_attr) (example_world, []) of
      ((r, a), w, calls) \<Rightarrow>
        r = Inl (OSError EPERM)
        \<and> calls = [Open ''/srv/root/new.txt'' 65 438, Chown ''/srv/root/new.txt'' 0 0])
   \<and> fst (chattr ''/srv/root'' ''/'' posix ''a.txt'' chown_attr (example_world, []))
       = Inr (Status SFTP_FAILURE)"
  by code_simp

section \<open>\<^verbatim>\<open>open\<close>: the creation mode and the permission bit\<close>

lemma strip_clears: "attr_flags (strip_permissions a) AND FLAG_PERMISSIONS = 0"
  by (simp add: strip_permissions_def and.assoc)

lemma host_do_chmods: "\<not> is_chmod c \<Longrightarrow> filter is_chmod (snd (snd (host_do c f st))) = filter is_chmod (snd st)"
  by (simp add: host_do_calls)

lemma bind_x_chmods:
  assumes "\<And>st. filter is_chmod (snd (snd (m st))) = filter is_chmod (snd st)"
    and "\<And>v st. filter is_chmod (snd (snd (f v st))) = filter is_chmod (snd st)"
  shows "filter is_chmod (snd (snd (bind_x m f st))) = filter is_chmod (snd st)"
  using assms by (simp add: bind_x_def split: prod.splits sum.splits) (metis snd_conv)

lemma set_file_attr_no_chmod:
  "attr_flags a AND FLAG_PERMISSIONS = 0 \<Longrightarrow>
   filter is_chmod (snd (snd (set_file_attr h p a st))) = filter is_chmod (snd st)"
  unfolding set_file_attr_def
  apply (intro bind_x_chmods)
  apply (auto simp: when_x_def chown_step_def utime_step_def truncate_step_def host_do_chmods Let_def split: option.splits)
  done


lemma host_do_callsD: "host_do c f st = (r, st') \<Longrightarrow> snd st' = snd st @ [c]"
  using host_do_calls [of c f st] by simp

lemma bind_x_prefix:
  assumes "\<And>st. prefix (snd st) (snd (snd (m st)))"
    and "\<And>v st. prefix (snd st) (snd (snd (f v st)))"
  shows "prefix (snd st) (snd (snd (bind_x m f st)))"
proof -
  obtain r st1 where ms: "m st = (r, st1)" by (cases "m st") auto
  have p1: "prefix (snd st) (snd st1)" using assms(1) [of st] ms by simp
  show ?thesis
  proof (cases r)
    case (Inl e)
    then show ?thesis using ms p1 by (simp add: bind_x_def)
  next
    case (Inr v)
    have "prefix (snd st1) (snd (snd (f v st1)))" by (rule assms(2))
    then show ?thesis using ms Inr p1 by (auto simp: bind_x_def)
  qed
qed

lemma when_x_prefix:
  "(\<And>st. prefix (snd st) (snd (snd (m st)))) \<Longrightarrow> prefix (snd st) (snd (snd (when_x b m st)))"
  by (simp add: when_x_def)

lemma host_do_prefix: "prefix (snd st) (snd (snd (host_do c f st)))"
  by (simp add: host_do_calls)

lemma set_file_attr_prefix: "prefix (snd st) (snd (snd (set_file_attr h p a st)))"
  unfolding set_file_attr_def
  by (intro bind_x_prefix when_x_prefix)
     (auto simp: chmod_step_def chown_step_def utime_step_def truncate_step_def host_do_prefix
        Let_def split: option.splits)

lemma set_file_attr_prefixD: "set_file_attr h p a st = (r, st') \<Longrightarrow> prefix (snd st) (snd st')"
  using set_file_attr_prefix [of st h p a] by simp

lemma set_file_attr_no_chmodD:
  "set_file_attr h p a st = (r, st') \<Longrightarrow> attr_flags a AND FLAG_PERMISSIONS = 0 \<Longrightarrow>
   filter is_chmod (snd st') = filter is_chmod (snd st)"
  using set_file_attr_no_chmod [of a h p st] by simp

lemma open_mode_default:
  "(case attr of None \<Rightarrow> None | Some a \<Rightarrow> st_mode a) = None \<Longrightarrow> open_mode attr = 438"
  by (simp add: open_mode_def split: option.splits)




text \<open>
  C5. For a path that resolves to \<open>p\<close>: when no mode is supplied (no attributes, or
  attributes whose \<^verbatim>\<open>st_mode\<close> is \<^verbatim>\<open>None\<close>) the first host call of \<^verbatim>\<open>open\<close> is
  \<^verbatim>\<open>os.open(p, flags, 0o666)\<close> (438); and when the flags request creation, \<^verbatim>\<open>open\<close>
  makes no \<^verbatim>\<open>os.chmod\<close> call whatever the attributes say, and the attributes it leaves
  behind with a handle are the caller's with the permission bit cleared.
\<close>

theorem C5_open_default_mode_and_stripped_permissions:
  assumes acc: "realpath ROOT cwd path = Inr p"
  shows "((case attr of None \<Rightarrow> None | Some a \<Rightarrow> st_mode a) = None \<longrightarrow>
            prefix (snd st @ [Open p (flags OR O_BINARY) 438])
              (snd (snd (sftp_open ROOT cwd h path flags attr st))))
       \<and> (flags AND O_CREAT \<noteq> 0 \<longrightarrow>
            filter is_chmod (snd (snd (sftp_open ROOT cwd h path flags attr st)))
              = filter is_chmod (snd st)
            \<and> (\<forall>fobj. fst (fst (sftp_open ROOT cwd h path flags attr st)) = Inr (Handle fobj) \<longrightarrow>
                  snd (fst (sftp_open ROOT cwd h path flags attr st))
                    = map_option strip_permissions attr))"
proof -
  let ?f = "flags OR O_BINARY"
  let ?m = "open_mode attr"
  let ?attr' = "if ?f AND O_CREAT \<noteq> 0 then map_option strip_permissions attr else attr"
  let ?step2 = "\<lambda>st1. (case ?attr' of
        Some a \<Rightarrow> when_x (?f AND O_CREAT \<noteq> 0) (set_file_attr h p a) st1
      | None \<Rightarrow> (Inr (), st1))"
  have f: "?f = flags" by (simp add: O_BINARY_def)
  have m: "(case attr of None \<Rightarrow> None | Some a \<Rightarrow> st_mode a) = None \<Longrightarrow> ?m = 438"
    by (rule open_mode_default)
  obtain r1 st1 where h1: "host_do (Open p ?f ?m) (os_open h p ?f ?m) st = (r1, st1)"
    by (cases "host_do (Open p ?f ?m) (os_open h p ?f ?m) st") auto
  have t1: "snd st1 = snd st @ [Open p ?f ?m]"
    using h1 by (rule host_do_callsD)
  obtain r2 st2 where h2: "?step2 st1 = (r2, st2)"
    by (cases "?step2 st1") auto
  have t2: "prefix (snd st1) (snd st2)"
    using h2 by (auto simp: when_x_def split: option.splits if_splits dest: set_file_attr_prefixD)
  have c2: "filter is_chmod (snd st2) = filter is_chmod (snd st1)"
    using h2 by (auto simp: when_x_def strip_clears split: option.splits if_splits
        dest: set_file_attr_no_chmodD)
  show ?thesis
  proof (cases r1)
    case (Inl x)
    have res: "sftp_open ROOT cwd h path flags attr st =
        ((case x of OSError e \<Rightarrow> Inr (Status (convert_errno e)) | _ \<Rightarrow> Inl x, attr), st1)"
      using acc h1 Inl by (cases x) (simp_all add: sftp_open_def Let_def)
    show ?thesis using res t1 m f by (cases x) auto
  next
    case fd: (Inr fd)
    show ?thesis
    proof (cases r2)
      case (Inl x)
      have res: "sftp_open ROOT cwd h path flags attr st = ((Inl x, ?attr'), st2)"
        using acc h1 h2 fd Inl by (simp add: sftp_open_def Let_def)
      have p2: "prefix (snd st @ [Open p ?f ?m]) (snd st2)"
        using t1 t2 by simp
      have c2': "filter is_chmod (snd st2) = filter is_chmod (snd st)"
        using t1 c2 by simp
      show ?thesis using res p2 c2' m f by auto
    next
      case (Inr u)
      obtain r3 st3 where h3:
        "host_do (Fdopen fd (fdopen_mode ?f)) (os_fdopen h fd (fdopen_mode ?f)) st2 = (r3, st3)"
        by (cases "host_do (Fdopen fd (fdopen_mode ?f)) (os_fdopen h fd (fdopen_mode ?f)) st2") auto
      have t3: "snd st3 = snd st2 @ [Fdopen fd (fdopen_mode ?f)]"
        using h3 by (rule host_do_callsD)
      have res: "sftp_open ROOT cwd h path flags attr st =
          ((case r3 of Inl (OSError e) \<Rightarrow> Inr (Status (convert_errno e))
             | Inl x \<Rightarrow> Inl x
             | Inr fo \<Rightarrow> Inr (Handle \<lparr>handle_flags = ?f, handle_filename = p,
                                      readfile = fo, writefile = fo\<rparr>), ?attr'), st3)"
        using acc h1 h2 h3 fd Inr
        by (simp add: sftp_open_def Let_def split: sum.split exn.split)
      have p3: "prefix (snd st @ [Open p ?f ?m]) (snd st3)"
        using t1 t2 t3 by (auto simp: prefix_def)
      have c3: "filter is_chmod (snd st3) = filter is_chmod (snd st)"
        using t1 c2 t3 by simp
      show ?thesis using res p3 c3 m f by auto
    qed
  qed
qed

theorem C5_open_default_mode_witness:
  "realpath ''/srv/root'' ''/'' ''new.txt'' = Inr ''/srv/root/new.txt''
   \<and> (O_WRONLY OR O_CREAT) AND O_CREAT \<noteq> 0
   \<and> st_mode amtime_attr = None
   \<and> sftp_open ''/srv/root'' ''/'' posix ''new.txt'' (O_WRONLY OR O_CREAT) (Some amtime_attr)
        (example_world, [])
      = ((Inr (Handle \<lparr>handle_flags = 65, handle_filename = ''/srv/root/new.txt'',
                       readfile = 3, writefile = 3\<rparr>),
          Some (strip_permissions amtime_attr)),
         put ''/srv/root/new.txt'' (File 420 1000 1000 0) example_world
           \<lparr>fds := [''/srv/root/new.txt'']\<rparr>,
         [Open ''/srv/root/new.txt'' 65 438, Utime ''/srv/root/new.txt'' 10 20,
          Fdopen 3 ''wb''])
   \<and> prefix ([] @ [Open ''/srv/root/new.txt'' ((O_WRONLY OR O_CREAT) OR O_BINARY) 438])
        (snd (snd (sftp_open ''/srv/root'' ''/'' posix ''new.txt'' (O_WRONLY OR O_CREAT)
           (Some amtime_attr) (example_world, []))))
   \<and> filter is_chmod (snd (snd (sftp_open ''/srv/root'' ''/'' posix ''new.txt''
           (O_WRONLY OR O_CREAT) (Some amtime_attr) (example_world, [])))) = []"
proof -
  have acc: "realpath ''/srv/root'' ''/'' ''new.txt'' = Inr ''/srv/root/new.txt''"
    by code_simp
  have cr: "(O_WRONLY OR O_CREAT) AND O_CREAT \<noteq> 0" by code_simp
  have md: "st_mode amtime_attr = None" by (simp add: amtime_attr_def)
  have ev: "sftp_open ''/srv/root'' ''/'' posix ''new.txt'' (O_WRONLY OR O_CREAT) (Some amtime_attr)
        (example_world, [])
      = ((Inr (Handle \<lparr>handle_flags = 65, handle_filename = ''/srv/root/new.txt'',
                       readfile = 3, writefile = 3\<rparr>),
          Some (strip_permissions amtime_attr)),
         put ''/srv/root/new.txt'' (File 420 1000 1000 0) example_world
           \<lparr>fds := [''/srv/root/new.txt'']\<rparr>,
         [Open ''/srv/root/new.txt'' 65 438, Utime ''/srv/root/new.txt'' 10 20,
          Fdopen 3 ''wb''])"
    by code_simp
  from C5_open_default_mode_and_stripped_permissions [OF acc,
      of "Some amtime_attr" "(example_world, [])" "O_WRONLY OR O_CREAT" posix] cr md
  show ?thesis using acc ev by simp
qed


section \<open>Symbolic links: \<^verbatim>\<open>symlink\<close> and \<^verbatim>\<open>readlink\<close>\<close>

text \<open>
  C3. Claimed: a relative target whose resolution against the link's directory escapes
  the root is replaced by the sentinel \<^verbatim>\<open><error>\<close>, also when it contains \<^verbatim>\<open>..\<close>.
  The test is \<^verbatim>\<open>abspath[: len(self.ROOT)] != self.ROOT\<close> on the joined string, which is
  not normalised: for the link \<^verbatim>\<open>/srv/root/l\<close> and the target \<^verbatim>\<open>../../etc/passwd\<close> the
  joined string \<^verbatim>\<open>/srv/root/../../etc/passwd\<close> begins with the root, so the host is
  handed the target as it is, and the new link resolves to \<^verbatim>\<open>/etc/passwd\<close>.
\<close>

theorem C3_symlink_keeps_escaping_relative_target:
  "symlink_target ''/srv/root'' ''/srv/root/l'' ''../../etc/passwd'' = ''../../etc/passwd''
   \<and> normpath (path_join (dirname ''/srv/root/l'') ''../../etc/passwd'') = ''/etc/passwd''
   \<and> \<not> inside_root ''/srv/root'' ''/etc/passwd''
   \<and> (case symlink ''/srv/root'' ''/'' posix ''../../etc/passwd'' ''l'' (example_world, []) of
        (r, w, calls) \<Rightarrow>
          r = Inr (Status SFTP_OK) \<and> calls = [Symlink ''../../etc/passwd'' ''/srv/root/l'']
          \<and> lookup w ''/srv/root/l'' = Some (Link ''../../etc/passwd'')
          \<and> fst (stat ''/srv/root'' ''/'' posix ''l'' (w, []))
              = Inr (Attrs (from_stat (stat_of w (File 420 0 0 1000)) None)))"
  by code_simp

text \<open>
  What does hold of the round trip: under a root that starts with one separator, an
  absolute target with a single leading separator is stored under the root and read back
  as it was given.
\<close>

lemma readlink_of_symlink_target:
  assumes "prefix ''/'' ROOT" and "\<not> prefix ''//'' ROOT" and "\<not> prefix ''/'' r"
  shows "readlink_result ROOT (symlink_target ROOT p (''/'' @ r)) = ''/'' @ r"
proof -
  obtain root' where R: "ROOT = CHR ''/'' # root'" using assms(1) by (auto simp: prefix_def)
  have nn: "root' = [] \<or> hd root' \<noteq> CHR ''/''" using assms(2) R by (cases root') auto
  show ?thesis
  proof (cases "last ROOT = CHR ''/''")
    case True
    have t: "symlink_target ROOT p (''/'' @ r) = ROOT @ r"
      using assms(3) True R nn
      by (cases root'; cases r) (auto simp: symlink_target_def path_join_def Let_def)
    have a: "isabs (ROOT @ r)" using R by (simp add: isabs_def)
    show ?thesis unfolding t using assms(3) a
      by (cases r) (simp_all add: readlink_result_def)
  next
    case False
    have t: "symlink_target ROOT p (''/'' @ r) = ROOT @ ''/'' @ r"
      using assms(3) False R nn
      by (cases root') (auto simp: symlink_target_def path_join_def Let_def)
    have a: "isabs (ROOT @ ''/'' @ r)" using R by (simp add: isabs_def)
    show ?thesis unfolding t using a
      by (simp add: readlink_result_def)
  qed
qed

text \<open>
  C4. Claimed: \<^verbatim>\<open>readlink\<close> returns the sentinel for an absolute target outside the
  root, and returns the root-relative string for a link freshly created with a
  root-relative absolute target. Both comparisons are on strings: a link to
  \<^verbatim>\<open>/srv/root_evil/x\<close>, outside the root \<^verbatim>\<open>/srv/root\<close>, reads as \<^verbatim>\<open>/_evil/x\<close>; and
  \<^verbatim>\<open>symlink("//etc/passwd", "l")\<close> hands \<^verbatim>\<open>os.path.join\<close> the absolute
  \<^verbatim>\<open>/etc/passwd\<close>, so the link just created reads as the sentinel.
\<close>

theorem C4_readlink_outside_target_and_round_trip:
  "\<not> inside_root ''/srv/root'' ''/srv/root_evil/x''
   \<and> readlink ''/srv/root'' ''/'' posix ''sib'' (example_world, [])
       = (Inr (Target ''/_evil/x''), example_world, [Readlink ''/srv/root/sib''])
   \<and> (case symlink ''/srv/root'' ''/'' posix ''//etc/passwd'' ''l'' (example_world, []) of
        (r, st) \<Rightarrow>
          r = Inr (Status SFTP_OK)
          \<and> snd st = [Symlink ''/etc/passwd'' ''/srv/root/l'']
          \<and> fst (readlink ''/srv/root'' ''/'' posix ''l'' st) = Inr (Target ''<error>''))"
  by code_simp

section \<open>Links that leave the root\<close>









text \<open>
  The POSIX host of the examples follows a link as \<open>redirect\<close> says: in a state where
  \<open>p\<close> is a link that resolves to \<open>q\<close> and \<open>q\<close> is no link, its following calls at \<open>p\<close>
  are those of the host redirected from \<open>p\<close> to \<open>q\<close>.
\<close>

lemma follow_one_link:
  assumes "lookup w p = Some (Link t)" and "q = normpath (path_join (dirname p) t)"
    and "\<forall>t'. lookup w q \<noteq> Some (Link t')"
  shows "follow 40 w p = Inr q" and "follow 40 w q = Inr q"
proof -
  have n: "(40::nat) = Suc (Suc 38)" by simp
  have q: "follow (Suc k) w q = Inr q" for k
    using assms(3) by (cases "lookup w q") (auto split: node.splits)
  have "follow (Suc (Suc k)) w p = Inr q" for k
    using assms(1,2) q [of k] by simp
  then show "follow 40 w p = Inr q" by (simp only: n)
  show "follow 40 w q = Inr q" using q [of "Suc 38"] by (simp only: n)
qed

lemma posix_follows_link:
  assumes "lookup w p = Some (Link t)" and "q = normpath (path_join (dirname p) t)"
    and "\<forall>t'. lookup w q \<noteq> Some (Link t')"
  shows "os_stat posix p w = os_stat (redirect p q posix) p w"
    and "os_listdir posix p w = os_listdir (redirect p q posix) p w"
    and "os_chmod posix p m w = os_chmod (redirect p q posix) p m w"
    and "os_chown posix p u g w = os_chown (redirect p q posix) p u g w"
    and "os_utime posix p a b w = os_utime (redirect p q posix) p a b w"
    and "os_truncate posix p n w = os_truncate (redirect p q posix) p n w"
    and "open_follows flags \<Longrightarrow>
         os_open posix p flags md w = os_open (redirect p q posix) p flags md w"
  using follow_one_link [OF assms] assms(1,3)
  by (auto simp: redirect_def posix_def posix_stat_def posix_listdir_def posix_chmod_def
      posix_chown_def posix_utime_def posix_truncate_def posix_open_def open_follows_def
      split: option.splits node.splits)






section \<open>The server's lifecycle\<close>

text \<open>
  C9. \<^verbatim>\<open>stop\<close> on a server that is not running, and \<^verbatim>\<open>start\<close> and \<^verbatim>\<open>start_sync\<close> on one
  that is, return normally and leave every field of the server as it was; the process
  gains one logged line, which changes neither \<^verbatim>\<open>StubSFTPServer.ROOT\<close> nor any file.
\<close>

theorem C9_lifecycle_noops:
  "(\<not> is_running self \<longrightarrow>
      stop self g = (Inr (), self, logging_info LogNotRunning g))
   \<and> (is_running self \<longrightarrow>
        start self g = (Inr (), self, logging_info LogAlreadyRunning g)
        \<and> start_sync bind_error events self g
            = Some (Inr (), self, logging_info LogAlreadyRunning g))
   \<and> StubSFTPServer_ROOT (logging_info msg g) = StubSFTPServer_ROOT g
   \<and> files (logging_info msg g) = files g"
  by (simp add: stop_def start_def start_sync_def logging_info_def)

theorem C9_lifecycle_noops_witness:
  "\<not> is_running example_server
   \<and> stop example_server example_process
       = (Inr (), example_server, logging_info LogNotRunning example_process)
   \<and> is_running (fst (snd (start example_server example_process)))
   \<and> start (fst (snd (start example_server example_process))) example_process
       = (Inr (), fst (snd (start example_server example_process)),
          logging_info LogAlreadyRunning example_process)
   \<and> start_sync None [Served] (fst (snd (start example_server example_process))) example_process
       = Some (Inr (), fst (snd (start example_server example_process)),
          logging_info LogAlreadyRunning example_process)"
proof -
  have a: "\<not> is_running example_server" by (simp add: example_server_def)
  have b: "is_running (fst (snd (start example_server example_process)))"
    by (simp add: start_def example_server_def)
  show ?thesis
    using a b C9_lifecycle_noops [of example_server example_process None "[Served]" LogStopped]
      C9_lifecycle_noops [of "fst (snd (start example_server example_process))" example_process
        None "[Served]" LogStopped]
    by simp
qed

text \<open>
  C10. If no file exists at the key path and the path can be opened for writing,
  construction succeeds and afterwards the file at the key path holds a 2048-bit RSA
  private key with public exponent 65537, PEM-encoded in the TraditionalOpenSSL format
  with no encryption, every other file unchanged. If a file exists there, whatever its
  content, construction succeeds and leaves all files unchanged. (If no file exists and
  the path cannot be opened for writing, the \<^verbatim>\<open>OSError\<close> of \<^verbatim>\<open>open\<close> ends the
  construction.)
\<close>

theorem C10_key_file_at_construction:
  "(files g (arg_key_filename a) = None \<and> open_wb_error g (arg_key_filename a) = None \<longrightarrow>
      (\<exists>self g'. init a g = Inr (self, g')
         \<and> key_filename self = arg_key_filename a
         \<and> files g' (arg_key_filename a)
             = Some (PrivateBytes \<lparr>public_exponent = 65537, key_size = 2048\<rparr>
                       PEM TraditionalOpenSSL NoEncryption)
         \<and> (\<forall>p. p \<noteq> arg_key_filename a \<longrightarrow> files g' p = files g p)))
   \<and> (files g (arg_key_filename a) \<noteq> None \<longrightarrow>
        (\<exists>self g'. init a g = Inr (self, g')
           \<and> key_filename self = arg_key_filename a \<and> files g' = files g))
   \<and> (files g (arg_key_filename a) = None \<and> open_wb_error g (arg_key_filename a) = Some e \<longrightarrow>
        init a g = Inl (OSError e))"
  by (auto simp: init_def generate_rsa_key_pair_def logging_info_def Let_def)

theorem C10_key_file_witness:
  "files example_process ''/tmp/key.pem'' = None
   \<and> open_wb_error example_process ''/tmp/key.pem'' = None
   \<and> (\<exists>self g'. init (example_args ''/tmp/key.pem'' ''/srv/root'') example_process = Inr (self, g')
         \<and> files g' ''/tmp/key.pem''
             = Some (PrivateBytes \<lparr>public_exponent = 65537, key_size = 2048\<rparr>
                       PEM TraditionalOpenSSL NoEncryption))
   \<and> files example_process ''/tmp/old.pem'' = Some (OtherBytes ''not a key'')
   \<and> (\<exists>self g'. init (example_args ''/tmp/old.pem'' ''/srv/root'') example_process = Inr (self, g')
         \<and> files g' = files example_process)
   \<and> files example_process ''/nodir/key.pem'' = None
   \<and> open_wb_error example_process ''/nodir/key.pem'' = Some ENOENT
   \<and> init (example_args ''/nodir/key.pem'' ''/srv/root'') example_process = Inl (OSError ENOENT)"
proof -
  have a: "files example_process ''/tmp/key.pem'' = None
      \<and> open_wb_error example_process ''/tmp/key.pem'' = None"
    by (simp add: example_process_def)
  have b: "files example_process ''/tmp/old.pem'' = Some (OtherBytes ''not a key'')"
    by (simp add: example_process_def)
  have c: "files example_process ''/nodir/key.pem'' = None
      \<and> open_wb_error example_process ''/nodir/key.pem'' = Some ENOENT"
    by (simp add: example_process_def)
  have ka: "arg_key_filename (example_args k r) = k" for k r by (simp add: example_args_def)
  show ?thesis
    using a b c
      C10_key_file_at_construction [of example_process
        "example_args ''/tmp/key.pem'' ''/srv/root''" ENOENT]
      C10_key_file_at_construction [of example_process
        "example_args ''/tmp/old.pem'' ''/srv/root''" ENOENT]
      C10_key_file_at_construction [of example_process
        "example_args ''/nodir/key.pem'' ''/srv/root''" ENOENT]
    by (simp add: ka) blast
qed

text \<open>
  \<^verbatim>\<open>StubSFTPServer.ROOT\<close> is a class attribute: one value for the whole process.
  No lifecycle call and no request of a session assigns it.
\<close>

lemma accept_loop_keeps_ROOT:
  "accept_loop es self g = Some (self', g') \<Longrightarrow>
   StubSFTPServer_ROOT g' = StubSFTPServer_ROOT g"
proof (induction es arbitrary: self g)
  case Nil
  then show ?case by (simp split: if_splits)
next
  case (Cons e es)
  show ?case
  proof (cases "is_running self")
    case False
    then show ?thesis using Cons.prems by simp
  next
    case True
    then show ?thesis
      using Cons.prems Cons.IH
      by (cases e) (fastforce simp: logging_info_def)+
  qed
qed

lemma start_keeps_ROOT:
  "start self g = (r, self', g') \<Longrightarrow> StubSFTPServer_ROOT g' = StubSFTPServer_ROOT g"
  by (auto simp: start_def logging_info_def split: if_splits)

lemma stop_keeps_ROOT:
  "stop self g = (r, self', g') \<Longrightarrow> StubSFTPServer_ROOT g' = StubSFTPServer_ROOT g"
  by (auto simp: stop_def logging_info_def Let_def split: if_splits option.splits)

lemma run_server_keeps_ROOT:
  "run_server b es self g = Some (r, self', g') \<Longrightarrow>
   StubSFTPServer_ROOT g' = StubSFTPServer_ROOT g"
  by (auto simp: run_server_def split: option.splits dest!: accept_loop_keeps_ROOT)

lemma start_sync_keeps_ROOT:
  "start_sync b es self g = Some (r, self', g') \<Longrightarrow>
   StubSFTPServer_ROOT g' = StubSFTPServer_ROOT g"
  by (auto simp: start_sync_def logging_info_def split: if_splits
      dest!: run_server_keeps_ROOT)

lemma act_keeps_ROOT:
  "\<not> is_construct a \<Longrightarrow> StubSFTPServer_ROOT (proc (act h a s)) = StubSFTPServer_ROOT (proc s)"
  by (cases a)
     (auto simp: act_def split: prod.splits option.splits
        dest: start_keeps_ROOT stop_keeps_ROOT start_sync_keeps_ROOT run_server_keeps_ROOT)

lemma run_keeps_ROOT:
  "\<forall>a \<in> set acts. \<not> is_construct a \<Longrightarrow>
   StubSFTPServer_ROOT (proc (run h acts s)) = StubSFTPServer_ROOT (proc s)"
  by (induction acts arbitrary: s) (simp_all add: act_keeps_ROOT)

text \<open>
  C7 (amended). Along any sequence of lifecycle calls and session requests that
  constructs no server, \<^verbatim>\<open>StubSFTPServer.ROOT\<close> keeps its value; a successful
  construction assigns it the new server's \<^verbatim>\<open>root_path\<close> (the argument, or the working
  directory when the argument is empty).
\<close>

theorem C7_ROOT_assigned_only_by_construction:
  "((\<forall>a \<in> set acts. \<not> is_construct a) \<longrightarrow>
      StubSFTPServer_ROOT (proc (run h acts s)) = StubSFTPServer_ROOT (proc s))
   \<and> (\<forall>self g'. init args g = Inr (self, g') \<longrightarrow>
         StubSFTPServer_ROOT g' = root_path self
         \<and> root_path self = (if arg_root_path args = [] then getcwd g else arg_root_path args))"
proof -
  have "getcwd g' = getcwd g" if "generate_rsa_key_pair k n g = Inr g'" for k n g'
    using that by (auto simp: generate_rsa_key_pair_def logging_info_def Let_def
        split: option.splits)
  then have i: "\<forall>self g'. init args g = Inr (self, g') \<longrightarrow>
         StubSFTPServer_ROOT g' = root_path self
         \<and> root_path self = (if arg_root_path args = [] then getcwd g else arg_root_path args)"
    by (auto simp: init_def Let_def split: if_splits sum.splits)
  show ?thesis using i run_keeps_ROOT [of acts h s] by blast
qed

theorem C7_ROOT_witness:
  "\<not> list_ex is_construct
       [CallStart 0, ThreadRuns 0 None [Served], Session (ReqRemove ''a.txt''),
        Session (ReqSymlink ''/x'' ''l''), CallStop 0]
   \<and> (\<exists>self g'. init (example_args ''/tmp/key.pem'' ''/srv/root'') example_process = Inr (self, g')
        \<and> StubSFTPServer_ROOT g' = ''/srv/root''
        \<and> StubSFTPServer_ROOT (proc (run posix
             [CallStart 0, ThreadRuns 0 None [Served], Session (ReqRemove ''a.txt''),
              Session (ReqSymlink ''/x'' ''l''), CallStop 0]
             \<lparr>proc = g', servers = [self], hoststate = (example_world, [])\<rparr>)) = ''/srv/root'')"
proof -
  obtain self g' where i:
    "init (example_args ''/tmp/key.pem'' ''/srv/root'') example_process = Inr (self, g')"
    by (simp add: init_def generate_rsa_key_pair_def example_process_def example_args_def Let_def)
  have n: "\<forall>a \<in> set [CallStart 0, ThreadRuns 0 None [Served], Session (ReqRemove ''a.txt''),
      Session (ReqSymlink ''/x'' ''l''), CallStop 0]. \<not> is_construct a"
    by simp
  have r: "arg_root_path (example_args ''/tmp/key.pem'' ''/srv/root'') = ''/srv/root''"
    by (simp add: example_args_def)
  from C7_ROOT_assigned_only_by_construction [of "[CallStart 0, ThreadRuns 0 None [Served],
      Session (ReqRemove ''a.txt''), Session (ReqSymlink ''/x'' ''l''), CallStop 0]" posix
      "\<lparr>proc = g', servers = [self], hoststate = (example_world, [])\<rparr>"
      "example_args ''/tmp/key.pem'' ''/srv/root''" example_process] i n r
  show ?thesis by auto
qed

text \<open>
  The claim as stated has the root fixed from a server's construction to its shutdown.
  Constructing a second server while the first is running replaces the root the first
  server's sessions resolve against: \<^verbatim>\<open>/srv/a\<close> becomes \<^verbatim>\<open>/srv/b\<close>.
\<close>

theorem C7_second_construction_replaces_ROOT:
  "(case run posix [Construct (example_args ''/tmp/key.pem'' ''/srv/a''), CallStart 0]
          example_program of s1 \<Rightarrow>
      StubSFTPServer_ROOT (proc s1) = ''/srv/a''
      \<and> is_running (servers s1 ! 0)
      \<and> (case act posix (Construct (example_args ''/tmp/key.pem'' ''/srv/b'')) s1 of s2 \<Rightarrow>
           is_running (servers s2 ! 0) \<and> root_path (servers s2 ! 0) = ''/srv/a''
           \<and> StubSFTPServer_ROOT (proc s2) = ''/srv/b''))"
  by (simp add: act_def init_def generate_rsa_key_pair_def logging_info_def start_def
      example_program_def example_process_def example_args_def Let_def)


end
